theory Spec2Isabelle
  imports Complex_Main
begin

unbundle bit_operations_syntax

section \<open>Data model of the noisy simulator\<close>

text \<open>
  A \<^verbatim>\<open>double\<close> that the recorder only stores and passes on (a probability, an angle, a
  matrix entry) is a \<^typ>\<open>real\<close>; the arithmetic of the amplitude kernels is modelled
  with its rounding, further down.  \<^verbatim>\<open>size_t\<close> is \<^typ>\<open>nat\<close>; the one place where the
  64-bit width of \<^verbatim>\<open>size_t\<close> is visible (the sentinel \<^verbatim>\<open>-1\<close> of
  \<^verbatim>\<open>_insert_gate_error2q\<close>) is written out.  A \<^verbatim>\<open>std::map\<close> is an association
  list in iteration (key) order; \<^verbatim>\<open>find\<close> is \<^const>\<open>map_of\<close>.
\<close>

datatype NoiseType =
    NoiseTypeBegin
  | Depolarizing
  | Damping
  | BitFlip
  | PhaseFlip
  | TwoQubitDepolarizing
  | NoiseTypeEnd

text \<open>
  Modelled from the spec: the enumerator order of \<^verbatim>\<open>NoiseType\<close> as
  \<^verbatim>\<open>noisy_simulator.cpp\<close> uses it (the header that declares the sentinels
  \<^verbatim>\<open>__NoiseTypeBegin\<close>, \<^verbatim>\<open>__NoiseTypeEnd\<close> and \<^verbatim>\<open>TwoQubitDepolarizing\<close> is
  missing from the sources): noise tags are small integers, the sentinels bracket the
  channels.
\<close>

fun NoiseType_index :: "NoiseType \<Rightarrow> nat" where
  "NoiseType_index NoiseTypeBegin = 0"
| "NoiseType_index Depolarizing = 1"
| "NoiseType_index Damping = 2"
| "NoiseType_index BitFlip = 3"
| "NoiseType_index PhaseFlip = 4"
| "NoiseType_index TwoQubitDepolarizing = 5"
| "NoiseType_index NoiseTypeEnd = 6"

text \<open>
  The gate tags that \<^verbatim>\<open>noisy_simulator.cpp\<close> records or replays.  The header among
  the sources declares sixteen of them, from \<open>HADAMARD = 1000\<close>; \<open>IDENTITY\<close>, \<open>SWAP\<close>,
  \<open>TOFFOLI\<close> and \<open>CSWAP\<close> are used by the mutators and the replay switch.
\<close>

datatype SupportOperationType =
    IDENTITY
  | HADAMARD
  | U22
  | X
  | Y
  | Z
  | SX
  | CZ
  | SWAP
  | ISWAP
  | XY
  | CNOT
  | RX
  | RY
  | RZ
  | RPHI90
  | RPHI180
  | RPHI
  | TOFFOLI
  | CSWAP

text \<open>
  The \<^verbatim>\<open>uint32_t op\<close> of an opcode is always the cast of an enumerator of one of
  the two enum classes, and the replay switch compares it with such casts.  The tag is
  kept as the enumerator it was cast from; gate tags (from 1000) and noise tags (small
  integers) do not overlap.
\<close>

datatype op_tag = NoiseTag NoiseType | GateTag SupportOperationType

datatype error =
    RuntimeError string
  | RuntimeError_opcode op_tag
  | InvalidArgument string
  | OutOfBounds

text \<open>
  \<^const>\<open>RuntimeError_opcode\<close> is the runtime error of the replay switch's default
  case, whose message is formatted from the tag.  \<^const>\<open>OutOfBounds\<close> stands for an
  unchecked \<^verbatim>\<open>operator[]\<close> read past the end of a vector.
\<close>

record OpcodeType =
  op :: op_tag
  qubits :: "nat list"
  parameters :: "real list"
  dagger :: bool
  global_controller :: "nat list"

datatype policy = Global | GateDependent | GateSpecificError

type_synonym noise_map = "(NoiseType \<times> real) list"

record 'st NoisySimulator =
  noise :: noise_map
  gate_dependent_noise :: "(SupportOperationType \<times> noise_map) list"
  gate_error1q :: "((SupportOperationType \<times> nat) \<times> noise_map) list"
  gate_error2q :: "((SupportOperationType \<times> nat \<times> nat) \<times> noise_map) list"
  measurement_error_matrices :: "(real \<times> real) list"
  simulator :: 'st
  nqubit :: nat
  measure_qubits :: "nat list"
  measure_map :: "(nat \<times> nat) list"
  opcodes :: "OpcodeType list"
  policy :: policy

text \<open>
  A member function that may throw returns an outcome: the object as the call left it,
  and the exception if one was thrown.  An exception does not undo what the function
  did to the object before throwing.
\<close>

datatype 's outcome = Returned 's | Threw error 's

fun and_then :: "'s outcome \<Rightarrow> ('s \<Rightarrow> 's outcome) \<Rightarrow> 's outcome" where
  "and_then (Returned s) f = f s"
| "and_then (Threw e s) f = Threw e s"

fun final :: "'s outcome \<Rightarrow> 's" where
  "final (Returned s) = s"
| "final (Threw e s) = s"

definition size_t_minus_one :: nat where
  "size_t_minus_one = 2 ^ 64 - 1"

section \<open>String parsing at the boundary\<close>

definition string_to_NoiseType :: "string \<Rightarrow> error + NoiseType" where
  "string_to_NoiseType noise_str =
     (if noise_str = ''depolarizing'' then Inr Depolarizing
      else if noise_str = ''damping'' then Inr Damping
      else if noise_str = ''bitflip'' then Inr BitFlip
      else if noise_str = ''phaseflip'' then Inr PhaseFlip
      else Inl (RuntimeError (''Failed to handle noise_str: '' @ noise_str @ [CHR 0x0A] @ ''Please check.'')))"

definition string_to_SupportOperationType :: "string \<Rightarrow> error + SupportOperationType" where
  "string_to_SupportOperationType gate_str =
     (if gate_str = ''HADAMARD'' then Inr HADAMARD
      else if gate_str = ''U22'' then Inr U22
      else if gate_str = ''X'' then Inr X
      else if gate_str = ''Y'' then Inr Y
      else if gate_str = ''Z'' then Inr Z
      else if gate_str = ''SX'' then Inr SX
      else if gate_str = ''CZ'' then Inr CZ
      else if gate_str = ''ISWAP'' then Inr ISWAP
      else if gate_str = ''XY'' then Inr XY
      else if gate_str = ''CNOT'' then Inr CNOT
      else if gate_str = ''RX'' then Inr RX
      else if gate_str = ''RY'' then Inr RY
      else if gate_str = ''RZ'' then Inr RZ
      else if gate_str = ''RPHI90'' then Inr RPHI90
      else if gate_str = ''RPHI180'' then Inr RPHI180
      else if gate_str = ''RPHI'' then Inr RPHI
      else Inl (RuntimeError (''Failed to handle gate_str: '' @ gate_str @ [CHR 0x0A] @ ''Please check.'')))"

text \<open>
  Modelled from the spec: \<^verbatim>\<open>gate_qubit_count\<close>, whose definition is missing from the
  sources, is the number of qubits a gate acts on (the length of the qubit sequence its
  mutator records; Toffoli and CSWAP are the three-qubit gates).
\<close>

fun gate_qubit_count :: "SupportOperationType \<Rightarrow> int" where
  "gate_qubit_count CZ = 2"
| "gate_qubit_count SWAP = 2"
| "gate_qubit_count ISWAP = 2"
| "gate_qubit_count XY = 2"
| "gate_qubit_count CNOT = 2"
| "gate_qubit_count TOFFOLI = 3"
| "gate_qubit_count CSWAP = 3"
| "gate_qubit_count g = 1"

section \<open>Construction\<close>

text \<open>\<^verbatim>\<open>StatevectorSimulator::max_qubit_num\<close> of \<^verbatim>\<open>simulator.h\<close>.\<close>

definition max_qubit_num :: nat where
  "max_qubit_num = 30"

text \<open>
  \<^verbatim>\<open>noise[k] = v\<close> on a \<^verbatim>\<open>std::map<NoiseType, double>\<close>: overwrite the entry of
  an existing key, otherwise insert at the key's place in enumerator order.
\<close>

fun noise_assign :: "NoiseType \<Rightarrow> real \<Rightarrow> noise_map \<Rightarrow> noise_map" where
  "noise_assign k v [] = [(k, v)]"
| "noise_assign k v ((k', v') # m) =
     (if k = k' then (k, v) # m
      else if NoiseType_index k < NoiseType_index k' then (k, v) # (k', v') # m
      else (k', v') # noise_assign k v m)"

text \<open>
  \<^verbatim>\<open>NoisySimulator::_load_noise\<close>: four lookups by name in the description; nothing
  else of the description is read, and there is no \<^verbatim>\<open>throw\<close>.
\<close>

definition load_noise :: "(string \<rightharpoonup> real) \<Rightarrow> 'st NoisySimulator \<Rightarrow> 'st NoisySimulator" where
  "load_noise noise_description s =
     (let s1 = (case noise_description ''depolarizing'' of
                  None \<Rightarrow> s | Some p \<Rightarrow> s\<lparr>noise := noise_assign Depolarizing p (noise s)\<rparr>);
          s2 = (case noise_description ''damping'' of
                  None \<Rightarrow> s1 | Some p \<Rightarrow> s1\<lparr>noise := noise_assign Damping p (noise s1)\<rparr>);
          s3 = (case noise_description ''bitflip'' of
                  None \<Rightarrow> s2 | Some p \<Rightarrow> s2\<lparr>noise := noise_assign BitFlip p (noise s2)\<rparr>);
          s4 = (case noise_description ''phaseflip'' of
                  None \<Rightarrow> s3 | Some p \<Rightarrow> s3\<lparr>noise := noise_assign PhaseFlip p (noise s3)\<rparr>)
      in s4)"

text \<open>
  The loop that the gate-dependent and gate-specific loaders run over one inner noise
  description: each name goes through \<^const>\<open>string_to_NoiseType\<close>, which throws on
  the first name it does not know.
\<close>

fun load_noise_probabilities :: "(string \<times> real) list \<Rightarrow> noise_map \<Rightarrow> error + noise_map" where
  "load_noise_probabilities [] noiseProbabilities = Inr noiseProbabilities"
| "load_noise_probabilities ((name, p) # rest) noiseProbabilities =
     (case string_to_NoiseType name of
        Inl e \<Rightarrow> Inl e
      | Inr noiseType \<Rightarrow> load_noise_probabilities rest (noise_assign noiseType p noiseProbabilities))"

text \<open>
  The constructor \<^verbatim>\<open>NoisySimulator::NoisySimulator(n_qubit, noise_description,
  measurement_error)\<close>: the member initialisers, then \<^verbatim>\<open>_load_noise\<close>.  The
  default-constructed member \<^verbatim>\<open>simulator\<close> is the argument \<open>sim0\<close>.
\<close>

definition NoisySimulator_ctor ::
  "'st \<Rightarrow> nat \<Rightarrow> (string \<rightharpoonup> real) \<Rightarrow> (real \<times> real) list \<Rightarrow> error + 'st NoisySimulator" where
  "NoisySimulator_ctor sim0 n_qubit noise_description measurement_error =
     Inr (load_noise noise_description
       \<lparr>noise = [], gate_dependent_noise = [], gate_error1q = [], gate_error2q = [],
        measurement_error_matrices = measurement_error, simulator = sim0,
        nqubit = n_qubit, measure_qubits = [], measure_map = [], opcodes = [],
        policy = Global\<rparr>)"

section \<open>The opcode recorder\<close>

definition emplace_back :: "OpcodeType \<Rightarrow> 'st NoisySimulator \<Rightarrow> 'st NoisySimulator" where
  "emplace_back opc s = s\<lparr>opcodes := opcodes s @ [opc]\<rparr>"

fun insert_global_loop :: "nat list \<Rightarrow> noise_map \<Rightarrow> 'st NoisySimulator \<Rightarrow> 'st NoisySimulator outcome" where
  "insert_global_loop qs [] s = Returned s"
| "insert_global_loop qs ((noise_type, noise_probability) # rest) s =
     (if NoiseType_index noise_type \<le> NoiseType_index NoiseTypeBegin
         \<or> NoiseType_index noise_type \<ge> NoiseType_index NoiseTypeEnd
      then Threw (RuntimeError (''General noise type does not belong to the following: ''
                    @ ''Depolarizing Damping BitFlip PhaseFlip.'')) s
      else insert_global_loop qs rest
             (emplace_back \<lparr>op = NoiseTag noise_type, qubits = qs,
                parameters = [noise_probability], dagger = False, global_controller = []\<rparr> s))"

definition insert_global_error :: "nat list \<Rightarrow> 'st NoisySimulator \<Rightarrow> 'st NoisySimulator outcome" where
  "insert_global_error qs s = insert_global_loop qs (noise s) s"

fun insert_generic_error :: "nat list \<Rightarrow> noise_map \<Rightarrow> 'st NoisySimulator \<Rightarrow> 'st NoisySimulator" where
  "insert_generic_error qs [] s = s"
| "insert_generic_error qs ((noise_type, noise_probability) # rest) s =
     insert_generic_error qs rest
       (emplace_back \<lparr>op = NoiseTag noise_type, qubits = qs,
          parameters = [noise_probability], dagger = False, global_controller = []\<rparr> s)"

definition NoisySimulator_insert_error ::
  "nat list \<Rightarrow> SupportOperationType \<Rightarrow> 'st NoisySimulator \<Rightarrow> 'st NoisySimulator outcome" where
  "NoisySimulator_insert_error qs gate_type s = insert_global_error qs s"

definition insert_gate_dependent_error ::
  "nat list \<Rightarrow> SupportOperationType \<Rightarrow> 'st NoisySimulator \<Rightarrow> 'st NoisySimulator" where
  "insert_gate_dependent_error qs gateType s =
     (if gate_dependent_noise s = [] then s
      else case map_of (gate_dependent_noise s) gateType of
             Some m \<Rightarrow> insert_generic_error qs m s
           | None \<Rightarrow> s)"

definition NoisySimulator_GateDependent_insert_error ::
  "nat list \<Rightarrow> SupportOperationType \<Rightarrow> 'st NoisySimulator \<Rightarrow> 'st NoisySimulator outcome" where
  "NoisySimulator_GateDependent_insert_error qs gateType s =
     and_then (insert_global_error qs s)
       (\<lambda>s. Returned (insert_gate_dependent_error qs gateType s))"

definition insert_gate_error1q ::
  "SupportOperationType \<Rightarrow> nat \<Rightarrow> 'st NoisySimulator \<Rightarrow> 'st NoisySimulator" where
  "insert_gate_error1q gateType qn s =
     (if gate_error1q s = [] then s
      else case map_of (gate_error1q s) (gateType, qn) of
             Some m \<Rightarrow> insert_generic_error [qn] m s
           | None \<Rightarrow> s)"

text \<open>The scan of \<^verbatim>\<open>gate_error2q\<close> for the crosstalk of a one-qubit gate.\<close>

fun crosstalk_loop ::
  "SupportOperationType \<Rightarrow> nat \<Rightarrow> ((SupportOperationType \<times> nat \<times> nat) \<times> noise_map) list
    \<Rightarrow> 'st NoisySimulator \<Rightarrow> 'st NoisySimulator" where
  "crosstalk_loop gateType qn1 [] s = s"
| "crosstalk_loop gateType qn1 (((g, a, b), m) # rest) s =
     (if g \<noteq> gateType then crosstalk_loop gateType qn1 rest s
      else if a = qn1 then crosstalk_loop gateType qn1 rest (insert_generic_error [qn1, b] m s)
      else crosstalk_loop gateType qn1 rest s)"

definition insert_gate_error2q ::
  "SupportOperationType \<Rightarrow> nat \<Rightarrow> nat \<Rightarrow> 'st NoisySimulator \<Rightarrow> 'st NoisySimulator" where
  "insert_gate_error2q gateType qn1 qn2 s =
     (if gate_error2q s = [] then s
      else if qn2 = size_t_minus_one then crosstalk_loop gateType qn1 (gate_error2q s) s
      else case map_of (gate_error2q s) (gateType, qn1, qn2) of
             Some m \<Rightarrow> insert_generic_error [qn1, qn2] m s
           | None \<Rightarrow> s)"

text \<open>
  \<^verbatim>\<open>qubits[i]\<close> on the \<^verbatim>\<open>std::vector\<close> argument: reading past the end is made an
  explicit outcome.
\<close>

definition NoisySimulator_GateSpecificError_insert_error ::
  "nat list \<Rightarrow> SupportOperationType \<Rightarrow> 'st NoisySimulator \<Rightarrow> 'st NoisySimulator outcome" where
  "NoisySimulator_GateSpecificError_insert_error qs gateType s =
     and_then (insert_global_error qs s) (\<lambda>s.
       let gate_qcount = gate_qubit_count gateType in
       if gate_qcount = 1 then
         (if length qs < 1 then Threw OutOfBounds s
          else Returned (insert_gate_error2q gateType (qs ! 0) size_t_minus_one
                          (insert_gate_error1q gateType (qs ! 0) s)))
       else if gate_qcount = 2 then
         (if length qs < 2 then Threw OutOfBounds s
          else Returned (insert_gate_error1q gateType (qs ! 1)
                          (insert_gate_error1q gateType (qs ! 0)
                            (insert_gate_error2q gateType (qs ! 0) (qs ! 1) s))))
       else Threw (RuntimeError (''[Fatal] Error type and gate qubit count ''
                     @ ''is not correctly specified, which is not as expected.'')) s)"

text \<open>The virtual call \<^verbatim>\<open>insert_error\<close>, resolved by the object's class.\<close>

definition insert_error ::
  "nat list \<Rightarrow> SupportOperationType \<Rightarrow> 'st NoisySimulator \<Rightarrow> 'st NoisySimulator outcome" where
  "insert_error qs gate_type s =
     (case policy s of
        Global \<Rightarrow> NoisySimulator_insert_error qs gate_type s
      | GateDependent \<Rightarrow> NoisySimulator_GateDependent_insert_error qs gate_type s
      | GateSpecificError \<Rightarrow> NoisySimulator_GateSpecificError_insert_error qs gate_type s)"


subsection \<open>The gate mutators\<close>

text \<open>
  Every mutator appends its gate opcode and then calls \<^const>\<open>insert_error\<close>.  The
  arguments are in the order of the C++ signatures.
\<close>

definition id_gate ::
  "nat \<Rightarrow> nat list \<Rightarrow> bool \<Rightarrow> 'st NoisySimulator \<Rightarrow> 'st NoisySimulator outcome" where
  "id_gate qn controllers is_dagger s =
     insert_error [qn] IDENTITY
       (emplace_back \<lparr>op = GateTag IDENTITY, qubits = [qn], parameters = [],
          dagger = is_dagger, global_controller = controllers\<rparr> s)"

definition hadamard ::
  "nat \<Rightarrow> nat list \<Rightarrow> bool \<Rightarrow> 'st NoisySimulator \<Rightarrow> 'st NoisySimulator outcome" where
  "hadamard qn controllers is_dagger s =
     insert_error [qn] HADAMARD
       (emplace_back \<lparr>op = GateTag HADAMARD, qubits = [qn], parameters = [],
          dagger = is_dagger, global_controller = controllers\<rparr> s)"

definition u22 ::
  "nat \<Rightarrow> complex \<times> complex \<times> complex \<times> complex \<Rightarrow> nat list \<Rightarrow> bool \<Rightarrow> 'st NoisySimulator \<Rightarrow> 'st NoisySimulator outcome" where
  "u22 qn unitary controllers is_dagger s =
     insert_error [qn] U22
       (emplace_back \<lparr>op = GateTag U22, qubits = [qn], parameters = (case unitary of (u0, u1, u2, u3) \<Rightarrow>
            [Re u0, Im u0, Re u1, Im u1, Re u2, Im u2, Re u3, Im u3]),
          dagger = is_dagger, global_controller = controllers\<rparr> s)"

definition x_gate ::
  "nat \<Rightarrow> nat list \<Rightarrow> bool \<Rightarrow> 'st NoisySimulator \<Rightarrow> 'st NoisySimulator outcome" where
  "x_gate qn controllers is_dagger s =
     insert_error [qn] X
       (emplace_back \<lparr>op = GateTag X, qubits = [qn], parameters = [],
          dagger = is_dagger, global_controller = controllers\<rparr> s)"

definition y_gate ::
  "nat \<Rightarrow> nat list \<Rightarrow> bool \<Rightarrow> 'st NoisySimulator \<Rightarrow> 'st NoisySimulator outcome" where
  "y_gate qn controllers is_dagger s =
     insert_error [qn] Y
       (emplace_back \<lparr>op = GateTag Y, qubits = [qn], parameters = [],
          dagger = is_dagger, global_controller = controllers\<rparr> s)"

definition z_gate ::
  "nat \<Rightarrow> nat list \<Rightarrow> bool \<Rightarrow> 'st NoisySimulator \<Rightarrow> 'st NoisySimulator outcome" where
  "z_gate qn controllers is_dagger s =
     insert_error [qn] Z
       (emplace_back \<lparr>op = GateTag Z, qubits = [qn], parameters = [],
          dagger = is_dagger, global_controller = controllers\<rparr> s)"

definition sx ::
  "nat \<Rightarrow> nat list \<Rightarrow> bool \<Rightarrow> 'st NoisySimulator \<Rightarrow> 'st NoisySimulator outcome" where
  "sx qn controllers is_dagger s =
     insert_error [qn] SX
       (emplace_back \<lparr>op = GateTag SX, qubits = [qn], parameters = [],
          dagger = is_dagger, global_controller = controllers\<rparr> s)"

definition cz ::
  "nat \<Rightarrow> nat \<Rightarrow> nat list \<Rightarrow> bool \<Rightarrow> 'st NoisySimulator \<Rightarrow> 'st NoisySimulator outcome" where
  "cz qn1 qn2 controllers is_dagger s =
     insert_error [qn1, qn2] CZ
       (emplace_back \<lparr>op = GateTag CZ, qubits = [qn1, qn2], parameters = [],
          dagger = is_dagger, global_controller = controllers\<rparr> s)"

definition swap_gate ::
  "nat \<Rightarrow> nat \<Rightarrow> nat list \<Rightarrow> bool \<Rightarrow> 'st NoisySimulator \<Rightarrow> 'st NoisySimulator outcome" where
  "swap_gate qn1 qn2 controllers is_dagger s =
     insert_error [qn1, qn2] SWAP
       (emplace_back \<lparr>op = GateTag SWAP, qubits = [qn1, qn2], parameters = [],
          dagger = is_dagger, global_controller = controllers\<rparr> s)"

definition xy ::
  "nat \<Rightarrow> nat \<Rightarrow> real \<Rightarrow> nat list \<Rightarrow> bool \<Rightarrow> 'st NoisySimulator \<Rightarrow> 'st NoisySimulator outcome" where
  "xy qn1 qn2 theta controllers is_dagger s =
     insert_error [qn1, qn2] XY
       (emplace_back \<lparr>op = GateTag XY, qubits = [qn1, qn2], parameters = [theta],
          dagger = is_dagger, global_controller = controllers\<rparr> s)"

definition iswap ::
  "nat \<Rightarrow> nat \<Rightarrow> nat list \<Rightarrow> bool \<Rightarrow> 'st NoisySimulator \<Rightarrow> 'st NoisySimulator outcome" where
  "iswap qn1 qn2 controllers is_dagger s =
     insert_error [qn1, qn2] ISWAP
       (emplace_back \<lparr>op = GateTag ISWAP, qubits = [qn1, qn2], parameters = [],
          dagger = is_dagger, global_controller = controllers\<rparr> s)"

definition cnot ::
  "nat \<Rightarrow> nat \<Rightarrow> nat list \<Rightarrow> bool \<Rightarrow> 'st NoisySimulator \<Rightarrow> 'st NoisySimulator outcome" where
  "cnot controller target controllers is_dagger s =
     insert_error [controller, target] CNOT
       (emplace_back \<lparr>op = GateTag CNOT, qubits = [controller, target], parameters = [],
          dagger = is_dagger, global_controller = controllers\<rparr> s)"

definition rx ::
  "nat \<Rightarrow> real \<Rightarrow> nat list \<Rightarrow> bool \<Rightarrow> 'st NoisySimulator \<Rightarrow> 'st NoisySimulator outcome" where
  "rx qn theta controllers is_dagger s =
     insert_error [qn] RX
       (emplace_back \<lparr>op = GateTag RX, qubits = [qn], parameters = [theta],
          dagger = is_dagger, global_controller = controllers\<rparr> s)"

definition ry ::
  "nat \<Rightarrow> real \<Rightarrow> nat list \<Rightarrow> bool \<Rightarrow> 'st NoisySimulator \<Rightarrow> 'st NoisySimulator outcome" where
  "ry qn theta controllers is_dagger s =
     insert_error [qn] RY
       (emplace_back \<lparr>op = GateTag RY, qubits = [qn], parameters = [theta],
          dagger = is_dagger, global_controller = controllers\<rparr> s)"

definition rz ::
  "nat \<Rightarrow> real \<Rightarrow> nat list \<Rightarrow> bool \<Rightarrow> 'st NoisySimulator \<Rightarrow> 'st NoisySimulator outcome" where
  "rz qn theta controllers is_dagger s =
     insert_error [qn] RZ
       (emplace_back \<lparr>op = GateTag RZ, qubits = [qn], parameters = [theta],
          dagger = is_dagger, global_controller = controllers\<rparr> s)"

definition rphi90 ::
  "nat \<Rightarrow> real \<Rightarrow> nat list \<Rightarrow> bool \<Rightarrow> 'st NoisySimulator \<Rightarrow> 'st NoisySimulator outcome" where
  "rphi90 qn phi controllers is_dagger s =
     insert_error [qn] RPHI90
       (emplace_back \<lparr>op = GateTag RPHI90, qubits = [qn], parameters = [phi],
          dagger = is_dagger, global_controller = controllers\<rparr> s)"

definition rphi180 ::
  "nat \<Rightarrow> real \<Rightarrow> nat list \<Rightarrow> bool \<Rightarrow> 'st NoisySimulator \<Rightarrow> 'st NoisySimulator outcome" where
  "rphi180 qn phi controllers is_dagger s =
     insert_error [qn] RPHI180
       (emplace_back \<lparr>op = GateTag RPHI180, qubits = [qn], parameters = [phi],
          dagger = is_dagger, global_controller = controllers\<rparr> s)"

definition rphi ::
  "nat \<Rightarrow> real \<Rightarrow> real \<Rightarrow> nat list \<Rightarrow> bool \<Rightarrow> 'st NoisySimulator \<Rightarrow> 'st NoisySimulator outcome" where
  "rphi qn phi theta controllers is_dagger s =
     insert_error [qn] RPHI
       (emplace_back \<lparr>op = GateTag RPHI, qubits = [qn], parameters = [phi, theta],
          dagger = is_dagger, global_controller = controllers\<rparr> s)"

definition toffoli ::
  "nat \<Rightarrow> nat \<Rightarrow> nat \<Rightarrow> nat list \<Rightarrow> bool \<Rightarrow> 'st NoisySimulator \<Rightarrow> 'st NoisySimulator outcome" where
  "toffoli qn1 qn2 target controllers is_dagger s =
     insert_error [qn1, qn2, target] TOFFOLI
       (emplace_back \<lparr>op = GateTag TOFFOLI, qubits = [qn1, qn2, target], parameters = [],
          dagger = is_dagger, global_controller = controllers\<rparr> s)"

definition cswap ::
  "nat \<Rightarrow> nat \<Rightarrow> nat \<Rightarrow> nat list \<Rightarrow> bool \<Rightarrow> 'st NoisySimulator \<Rightarrow> 'st NoisySimulator outcome" where
  "cswap controller target1 target2 controllers is_dagger s =
     insert_error [controller, target1, target2] CSWAP
       (emplace_back \<lparr>op = GateTag CSWAP, qubits = [controller, target1, target2], parameters = [],
          dagger = is_dagger, global_controller = controllers\<rparr> s)"

definition load_opcode ::
  "string \<Rightarrow> nat list \<Rightarrow> real list \<Rightarrow> bool \<Rightarrow> nat list \<Rightarrow> 'st NoisySimulator
    \<Rightarrow> 'st NoisySimulator outcome" where
  "load_opcode opstr qs ps is_dagger controllers s =
     (case string_to_SupportOperationType opstr of
        Inl e \<Rightarrow> Threw e s
      | Inr gate \<Rightarrow>
          insert_error qs gate
            (emplace_back \<lparr>op = GateTag gate, qubits = qs, parameters = ps,
               dagger = is_dagger, global_controller = controllers\<rparr> s))"


text \<open>
  The recording interface as one type of calls, so that a statement can range over every
  mutator and \<^verbatim>\<open>load_opcode\<close>.
\<close>

datatype mutator =
    Mut_id nat "nat list" bool
  | Mut_hadamard nat "nat list" bool
  | Mut_u22 nat "complex \<times> complex \<times> complex \<times> complex" "nat list" bool
  | Mut_x nat "nat list" bool
  | Mut_y nat "nat list" bool
  | Mut_z nat "nat list" bool
  | Mut_sx nat "nat list" bool
  | Mut_cz nat nat "nat list" bool
  | Mut_swap nat nat "nat list" bool
  | Mut_xy nat nat real "nat list" bool
  | Mut_iswap nat nat "nat list" bool
  | Mut_cnot nat nat "nat list" bool
  | Mut_rx nat real "nat list" bool
  | Mut_ry nat real "nat list" bool
  | Mut_rz nat real "nat list" bool
  | Mut_rphi90 nat real "nat list" bool
  | Mut_rphi180 nat real "nat list" bool
  | Mut_rphi nat real real "nat list" bool
  | Mut_toffoli nat nat nat "nat list" bool
  | Mut_cswap nat nat nat "nat list" bool
  | Mut_load_opcode string "nat list" "real list" bool "nat list"

fun record_call :: "mutator \<Rightarrow> 'st NoisySimulator \<Rightarrow> 'st NoisySimulator outcome" where
  "record_call (Mut_id qn c d) s = id_gate qn c d s"
| "record_call (Mut_hadamard qn c d) s = hadamard qn c d s"
| "record_call (Mut_u22 qn u c d) s = u22 qn u c d s"
| "record_call (Mut_x qn c d) s = x_gate qn c d s"
| "record_call (Mut_y qn c d) s = y_gate qn c d s"
| "record_call (Mut_z qn c d) s = z_gate qn c d s"
| "record_call (Mut_sx qn c d) s = sx qn c d s"
| "record_call (Mut_cz q1 q2 c d) s = cz q1 q2 c d s"
| "record_call (Mut_swap q1 q2 c d) s = swap_gate q1 q2 c d s"
| "record_call (Mut_xy q1 q2 theta c d) s = xy q1 q2 theta c d s"
| "record_call (Mut_iswap q1 q2 c d) s = iswap q1 q2 c d s"
| "record_call (Mut_cnot q1 q2 c d) s = cnot q1 q2 c d s"
| "record_call (Mut_rx qn theta c d) s = rx qn theta c d s"
| "record_call (Mut_ry qn theta c d) s = ry qn theta c d s"
| "record_call (Mut_rz qn theta c d) s = rz qn theta c d s"
| "record_call (Mut_rphi90 qn phi c d) s = rphi90 qn phi c d s"
| "record_call (Mut_rphi180 qn phi c d) s = rphi180 qn phi c d s"
| "record_call (Mut_rphi qn phi theta c d) s = rphi qn phi theta c d s"
| "record_call (Mut_toffoli q1 q2 t c d) s = toffoli q1 q2 t c d s"
| "record_call (Mut_cswap q1 q2 t c d) s = cswap q1 q2 t c d s"
| "record_call (Mut_load_opcode opstr qs ps d c) s = load_opcode opstr qs ps d c s"

section \<open>Replay\<close>

text \<open>
  \<^verbatim>\<open>execute_once\<close> drives the member \<^verbatim>\<open>simulator\<close> through the methods declared in
  \<^verbatim>\<open>simulator.h\<close>, whose bodies are not part of the sources.  A call is a value of
  \<open>sim_call\<close>, with every argument the call site passes (a default argument written
  out), and the simulator is a parameter \<open>kern\<close> that runs one call on its state or
  throws.
\<close>

datatype sim_call =
    Call_init_n_qubit nat
  | Call_depolarizing nat real
  | Call_damping nat real
  | Call_bitflip nat real
  | Call_phaseflip nat real
  | Call_twoqubit_depolarizing nat nat real
  | Call_hadamard nat "nat list" bool
  | Call_x nat "nat list" bool
  | Call_sx nat "nat list" bool
  | Call_y nat "nat list" bool
  | Call_z nat "nat list" bool
  | Call_rx nat real "nat list" bool
  | Call_ry nat real "nat list" bool
  | Call_rz nat real "nat list" bool
  | Call_cz nat nat "nat list" bool
  | Call_cnot nat nat "nat list" bool
  | Call_iswap nat nat "nat list" bool
  | Call_xy nat nat real "nat list" bool
  | Call_rphi90 nat real "nat list" bool
  | Call_rphi180 nat real "nat list" bool
  | Call_rphi nat real real "nat list" bool
  | Call_toffoli nat nat nat "nat list" bool
  | Call_cswap nat nat nat "nat list" bool

type_synonym 'st kernel = "sim_call \<Rightarrow> 'st \<Rightarrow> error + 'st"

fun bind_result :: "error + 'a \<Rightarrow> ('a \<Rightarrow> error + 'b) \<Rightarrow> error + 'b" where
  "bind_result (Inl e) f = Inl e"
| "bind_result (Inr a) f = f a"

definition vec_at :: "'a list \<Rightarrow> nat \<Rightarrow> error + 'a" where
  "vec_at xs i = (if i < length xs then Inr (xs ! i) else Inl OutOfBounds)"

text \<open>The loop \<^verbatim>\<open>for (const auto& q : opcode.qubits)\<close> of the one-qubit noise cases.\<close>

fun noise_loop ::
  "'st kernel \<Rightarrow> (nat \<Rightarrow> real \<Rightarrow> sim_call) \<Rightarrow> nat list \<Rightarrow> real list \<Rightarrow> 'st \<Rightarrow> error + 'st" where
  "noise_loop kern mk [] ps st = Inr st"
| "noise_loop kern mk (q # qs) ps st =
     bind_result (vec_at ps 0) (\<lambda>p. bind_result (kern (mk q p) st) (noise_loop kern mk qs ps))"

text \<open>One iteration of the switch of \<^verbatim>\<open>execute_once\<close>, in the order of its cases.\<close>

definition dispatch :: "'st kernel \<Rightarrow> OpcodeType \<Rightarrow> 'st \<Rightarrow> error + 'st" where
  "dispatch kern opcode st =
     (let qs = qubits opcode; ps = parameters opcode;
          gc = global_controller opcode; dg = dagger opcode
      in case op opcode of
        NoiseTag Depolarizing \<Rightarrow> noise_loop kern Call_depolarizing qs ps st
      | NoiseTag Damping \<Rightarrow> noise_loop kern Call_damping qs ps st
      | NoiseTag BitFlip \<Rightarrow> noise_loop kern Call_bitflip qs ps st
      | NoiseTag PhaseFlip \<Rightarrow> noise_loop kern Call_phaseflip qs ps st
      | NoiseTag TwoQubitDepolarizing \<Rightarrow>
          (if length qs \<noteq> 2
           then Inl (InvalidArgument ''The TwoQubitDepolarizing is not correctly applied.'')
           else bind_result (vec_at qs 0) (\<lambda>q0. bind_result (vec_at qs 1) (\<lambda>q1. bind_result (vec_at ps 0) (\<lambda>p.
                  kern (Call_twoqubit_depolarizing q0 q1 p) st))))
      | GateTag HADAMARD \<Rightarrow> bind_result (vec_at qs 0) (\<lambda>q0. kern (Call_hadamard q0 gc dg) st)
      | GateTag X \<Rightarrow> bind_result (vec_at qs 0) (\<lambda>q0. kern (Call_x q0 gc dg) st)
      | GateTag SX \<Rightarrow> bind_result (vec_at qs 0) (\<lambda>q0. kern (Call_sx q0 gc dg) st)
      | GateTag Y \<Rightarrow> bind_result (vec_at qs 0) (\<lambda>q0. kern (Call_y q0 gc dg) st)
      | GateTag Z \<Rightarrow> bind_result (vec_at qs 0) (\<lambda>q0. kern (Call_z q0 gc dg) st)
      | GateTag RX \<Rightarrow> bind_result (vec_at qs 0) (\<lambda>q0. bind_result (vec_at ps 0) (\<lambda>p0. kern (Call_rx q0 p0 gc dg) st))
      | GateTag RY \<Rightarrow> bind_result (vec_at qs 0) (\<lambda>q0. bind_result (vec_at ps 0) (\<lambda>p0. kern (Call_ry q0 p0 gc dg) st))
      | GateTag RZ \<Rightarrow> bind_result (vec_at qs 0) (\<lambda>q0. bind_result (vec_at ps 0) (\<lambda>p0. kern (Call_rz q0 p0 gc dg) st))
      | GateTag CZ \<Rightarrow> bind_result (vec_at qs 0) (\<lambda>q0. bind_result (vec_at qs 1) (\<lambda>q1. kern (Call_cz q0 q1 gc dg) st))
      | GateTag CNOT \<Rightarrow> bind_result (vec_at qs 0) (\<lambda>q0. bind_result (vec_at qs 1) (\<lambda>q1. kern (Call_cnot q0 q1 [] False) st))
      | GateTag ISWAP \<Rightarrow> bind_result (vec_at qs 0) (\<lambda>q0. bind_result (vec_at qs 1) (\<lambda>q1. kern (Call_iswap q0 q1 gc dg) st))
      | GateTag XY \<Rightarrow> bind_result (vec_at qs 0) (\<lambda>q0. bind_result (vec_at qs 1) (\<lambda>q1. bind_result (vec_at ps 0) (\<lambda>p0.
                        kern (Call_xy q0 q1 p0 gc dg) st)))
      | GateTag RPHI90 \<Rightarrow> bind_result (vec_at qs 0) (\<lambda>q0. bind_result (vec_at ps 0) (\<lambda>p0. kern (Call_rphi90 q0 p0 gc dg) st))
      | GateTag RPHI180 \<Rightarrow> bind_result (vec_at qs 0) (\<lambda>q0. bind_result (vec_at ps 0) (\<lambda>p0. kern (Call_rphi180 q0 p0 gc dg) st))
      | GateTag RPHI \<Rightarrow> bind_result (vec_at qs 0) (\<lambda>q0. bind_result (vec_at ps 0) (\<lambda>p0. bind_result (vec_at ps 1) (\<lambda>p1.
                          kern (Call_rphi q0 p0 p1 gc dg) st)))
      | GateTag TOFFOLI \<Rightarrow> bind_result (vec_at qs 0) (\<lambda>q0. bind_result (vec_at qs 1) (\<lambda>q1. bind_result (vec_at qs 2) (\<lambda>q2.
                             kern (Call_toffoli q0 q1 q2 gc dg) st)))
      | GateTag CSWAP \<Rightarrow> bind_result (vec_at qs 0) (\<lambda>q0. bind_result (vec_at qs 1) (\<lambda>q1. bind_result (vec_at qs 2) (\<lambda>q2.
                           kern (Call_cswap q0 q1 q2 gc dg) st)))
      | _ \<Rightarrow> Inl (RuntimeError_opcode (op opcode)))"

fun replay :: "'st kernel \<Rightarrow> OpcodeType list \<Rightarrow> 'st \<Rightarrow> error + 'st" where
  "replay kern [] st = Inr st"
| "replay kern (opcode # rest) st = bind_result (dispatch kern opcode st) (replay kern rest)"

definition execute_once :: "'st kernel \<Rightarrow> 'st NoisySimulator \<Rightarrow> error + 'st NoisySimulator" where
  "execute_once kern s =
     bind_result (kern (Call_init_n_qubit (nqubit s)) (simulator s)) (\<lambda>st.
       bind_result (replay kern (opcodes s) st) (\<lambda>st. Inr (s\<lparr>simulator := st\<rparr>)))"

section \<open>The noise kernels of \<^verbatim>\<open>NoiseSimulatorImpl\<close> and the sampler\<close>

text \<open>
  The uniform draw \<^verbatim>\<open>qpandalite::rand()\<close> of a kernel is its argument \<open>r\<close>.
\<close>

definition depolarizing :: "'st kernel \<Rightarrow> nat \<Rightarrow> real \<Rightarrow> real \<Rightarrow> 'st \<Rightarrow> error + 'st" where
  "depolarizing kern qn p r st =
     (if r > p then Inr st
      else if r < p / 3 then kern (Call_x qn [] False) st
      else if r < p / 3 * 2 then kern (Call_y qn [] False) st
      else kern (Call_z qn [] False) st)"

subsection \<open>Double arithmetic\<close>

text \<open>
  The amplitude kernels compute in IEEE doubles.  A double is a finite real, an infinity
  or NaN.  An arithmetic operation on finite doubles takes the exact result and rounds
  it; the rounding \<open>rnd\<close>, which yields a finite double or, on overflow, an infinity, is
  a parameter of every kernel, so that what is proved of a kernel holds whatever the
  rounding is.  A comparison with NaN is false.  The sign of a zero is not kept: it
  could only show in a division by \<open>-0\<close>, and the one divisor of these kernels, the
  square root of a sum that starts from \<open>+0\<close>, is never \<open>-0\<close>.
\<close>

datatype fp = Fin real | PInf | NInf | NaN

fun fneg :: "fp \<Rightarrow> fp" where
  "fneg (Fin x) = Fin (- x)"
| "fneg PInf = NInf"
| "fneg NInf = PInf"
| "fneg NaN = NaN"

fun fadd :: "(real \<Rightarrow> fp) \<Rightarrow> fp \<Rightarrow> fp \<Rightarrow> fp" where
  "fadd rnd (Fin x) (Fin y) = rnd (x + y)"
| "fadd rnd NaN b = NaN"
| "fadd rnd a NaN = NaN"
| "fadd rnd PInf NInf = NaN"
| "fadd rnd NInf PInf = NaN"
| "fadd rnd PInf b = PInf"
| "fadd rnd a PInf = PInf"
| "fadd rnd NInf b = NInf"
| "fadd rnd a NInf = NInf"

definition fsub :: "(real \<Rightarrow> fp) \<Rightarrow> fp \<Rightarrow> fp \<Rightarrow> fp" where
  "fsub rnd a b = fadd rnd a (fneg b)"

fun fmul :: "(real \<Rightarrow> fp) \<Rightarrow> fp \<Rightarrow> fp \<Rightarrow> fp" where
  "fmul rnd (Fin x) (Fin y) = rnd (x * y)"
| "fmul rnd NaN b = NaN"
| "fmul rnd a NaN = NaN"
| "fmul rnd (Fin x) b = (if x = 0 then NaN else if 0 < x then b else fneg b)"
| "fmul rnd a (Fin y) = (if y = 0 then NaN else if 0 < y then a else fneg a)"
| "fmul rnd a b = (if a = b then PInf else NInf)"

fun fdiv :: "(real \<Rightarrow> fp) \<Rightarrow> fp \<Rightarrow> fp \<Rightarrow> fp" where
  "fdiv rnd (Fin x) (Fin y) =
     (if y \<noteq> 0 then rnd (x / y)
      else if x = 0 then NaN else if 0 < x then PInf else NInf)"
| "fdiv rnd NaN b = NaN"
| "fdiv rnd a NaN = NaN"
| "fdiv rnd (Fin x) b = Fin 0"
| "fdiv rnd a (Fin y) = (if 0 \<le> y then a else fneg a)"
| "fdiv rnd a b = NaN"

fun fsqrt :: "(real \<Rightarrow> fp) \<Rightarrow> fp \<Rightarrow> fp" where
  "fsqrt rnd (Fin x) = (if x < 0 then NaN else rnd (sqrt x))"
| "fsqrt rnd PInf = PInf"
| "fsqrt rnd NInf = NaN"
| "fsqrt rnd NaN = NaN"

fun fabs :: "fp \<Rightarrow> fp" where
  "fabs (Fin x) = Fin \<bar>x\<bar>"
| "fabs PInf = PInf"
| "fabs NInf = PInf"
| "fabs NaN = NaN"

fun flt :: "fp \<Rightarrow> fp \<Rightarrow> bool" where
  "flt (Fin x) (Fin y) = (x < y)"
| "flt NaN b = False"
| "flt a NaN = False"
| "flt a NInf = False"
| "flt PInf b = False"
| "flt a b = True"

definition fgt :: "fp \<Rightarrow> fp \<Rightarrow> bool" where
  "fgt a b = flt b a"

text \<open>
  \<^verbatim>\<open>complex_t\<close>, a pair of doubles \<open>(re, im)\<close>, with the product and the quotient of a
  complex by a double, which work on each component.
\<close>

type_synonym complex_t = "fp \<times> fp"

definition cmul :: "(real \<Rightarrow> fp) \<Rightarrow> complex_t \<Rightarrow> fp \<Rightarrow> complex_t" where
  "cmul rnd z d = (fmul rnd (fst z) d, fmul rnd (snd z) d)"

definition cdiv :: "(real \<Rightarrow> fp) \<Rightarrow> complex_t \<Rightarrow> fp \<Rightarrow> complex_t" where
  "cdiv rnd z d = (fdiv rnd (fst z) d, fdiv rnd (snd z) d)"

subsection \<open>Amplitude damping and the sampler\<close>

record Simulator =
  total_qubit :: nat
  state :: "complex_t list"

text \<open>
  Modelled from the spec: \<^verbatim>\<open>pow2\<close>, a helper of a header that is missing from the
  sources: the power of two that is the length of the state vector.  The other helper
  of that header, \<^verbatim>\<open>abs_sqr\<close>, the squared magnitude \<open>|\<psi>[i]|\<^sup>2\<close> of an amplitude, is a
  parameter of the kernels that call it.
\<close>

definition pow2 :: "nat \<Rightarrow> nat" where
  "pow2 n = 2 ^ n"

text \<open>The test \<^verbatim>\<open>(i >> qn) & 1\<close>.\<close>

definition qubit_is_one :: "nat \<Rightarrow> nat \<Rightarrow> bool" where
  "qubit_is_one i qn = ((drop_bit qn i AND 1) \<noteq> 0)"

definition damping_prob_step ::
  "(real \<Rightarrow> fp) \<Rightarrow> (complex_t \<Rightarrow> fp) \<Rightarrow> complex_t list \<Rightarrow> nat \<Rightarrow> fp \<Rightarrow> fp \<Rightarrow> nat
    \<Rightarrow> fp \<times> fp \<Rightarrow> fp \<times> fp" where
  "damping_prob_step rnd abs_sqr st qn E0 E1 i acc =
     (case acc of (p0, p1) \<Rightarrow>
        if qubit_is_one i qn
        then (fadd rnd p0 (fadd rnd (abs_sqr (cmul rnd (st ! i) E0)) (abs_sqr (st ! (i - pow2 qn)))),
              fadd rnd p1 (abs_sqr (cmul rnd (st ! i) E1)))
        else (p0, p1))"

definition damping_decay_step :: "nat \<Rightarrow> nat \<Rightarrow> complex_t list \<Rightarrow> complex_t list" where
  "damping_decay_step qn i st =
     (if qubit_is_one i qn then (st[i - pow2 qn := st ! i])[i := (Fin 0, Fin 0)] else st)"

definition damping_scale_step ::
  "(real \<Rightarrow> fp) \<Rightarrow> nat \<Rightarrow> fp \<Rightarrow> nat \<Rightarrow> complex_t list \<Rightarrow> complex_t list" where
  "damping_scale_step rnd qn E0 i st =
     (if qubit_is_one i qn then st[i := cmul rnd (st ! i) E0] else st)"

text \<open>
  \<^verbatim>\<open>normalize_state_vector\<close>.  When the norm is zero the divisions give NaN and
  infinities, and the function returns as ever.
\<close>

definition normalize_state_vector ::
  "(real \<Rightarrow> fp) \<Rightarrow> (complex_t \<Rightarrow> fp) \<Rightarrow> Simulator \<Rightarrow> Simulator" where
  "normalize_state_vector rnd abs_sqr s =
     (let norm = fold (\<lambda>i norm. fadd rnd norm (abs_sqr (state s ! i)))
                   [0..<pow2 (total_qubit s)] (Fin 0);
          norm = fsqrt rnd norm
      in s\<lparr>state := fold (\<lambda>i st. st[i := cdiv rnd (st ! i) norm])
                        [0..<pow2 (total_qubit s)] (state s)\<rparr>)"

text \<open>
  \<^verbatim>\<open>NoiseSimulatorImpl::damping\<close>.  The literal \<^verbatim>\<open>1e-10\<close> is the double nearest to
  \<open>10\<^sup>-\<^sup>1\<^sup>0\<close>; \<^verbatim>\<open>1.0\<close> and \<^verbatim>\<open>0.0\<close> are doubles.
\<close>

definition damping ::
  "(real \<Rightarrow> fp) \<Rightarrow> (complex_t \<Rightarrow> fp) \<Rightarrow> nat \<Rightarrow> fp \<Rightarrow> fp \<Rightarrow> Simulator \<Rightarrow> error + Simulator" where
  "damping rnd abs_sqr qn p r s =
     (let E0 = fsqrt rnd (fsub rnd (Fin 1) p);
          E1 = fsqrt rnd p;
          (p0, p1) = fold (damping_prob_step rnd abs_sqr (state s) qn E0 E1)
                       [0..<pow2 (total_qubit s)] (Fin 0, Fin 0)
      in if fgt (fabs (fsub rnd (fadd rnd p0 p1) (Fin 1))) (rnd (1 / 10 ^ 10))
         then Inl (RuntimeError ''Error: Probabilities after applying Kraus operators do not sum up to 1.'')
         else Inr (normalize_state_vector rnd abs_sqr
                (if flt r p1
                 then s\<lparr>state := fold (damping_decay_step qn) [0..<pow2 (total_qubit s)] (state s)\<rparr>
                 else s\<lparr>state := fold (damping_scale_step rnd qn E0)
                                    [0..<pow2 (total_qubit s)] (state s)\<rparr>)))"

text \<open>\<^verbatim>\<open>NoisySimulator::get_measure_no_readout_error\<close>, with its draw \<open>r\<close>.\<close>

fun sample_loop ::
  "(real \<Rightarrow> fp) \<Rightarrow> (complex_t \<Rightarrow> fp) \<Rightarrow> complex_t list \<Rightarrow> nat list \<Rightarrow> fp \<Rightarrow> error + nat" where
  "sample_loop rnd abs_sqr st [] r =
     Inl (RuntimeError ''NoisySimulator::get_measure() internal fatal error!'')"
| "sample_loop rnd abs_sqr st (i # rest) r =
     (if flt r (abs_sqr (st ! i)) then Inr i
      else sample_loop rnd abs_sqr st rest (fsub rnd r (abs_sqr (st ! i))))"

definition get_measure_no_readout_error ::
  "(real \<Rightarrow> fp) \<Rightarrow> (complex_t \<Rightarrow> fp) \<Rightarrow> fp \<Rightarrow> Simulator NoisySimulator \<Rightarrow> error + nat" where
  "get_measure_no_readout_error rnd abs_sqr r s =
     sample_loop rnd abs_sqr (state (simulator s)) [0..<pow2 (total_qubit (simulator s))] r"

section \<open>Vocabulary of the statements\<close>

text \<open>The noise opcodes that one noise map puts on a qubit sequence, in map order.\<close>

definition noise_opcodes :: "nat list \<Rightarrow> noise_map \<Rightarrow> OpcodeType list" where
  "noise_opcodes qs m =
     map (\<lambda>(t, p). \<lparr>op = NoiseTag t, qubits = qs, parameters = [p], dagger = False,
                      global_controller = []\<rparr>) m"

definition append_opcodes :: "OpcodeType list \<Rightarrow> 'st NoisySimulator \<Rightarrow> 'st NoisySimulator" where
  "append_opcodes ops s = s\<lparr>opcodes := opcodes s @ ops\<rparr>"

text \<open>A key of the global noise map that passes the range check of \<^verbatim>\<open>_insert_global_error\<close>.\<close>

definition channel_key :: "NoiseType \<times> real \<Rightarrow> bool" where
  "channel_key e = (fst e \<noteq> NoiseTypeBegin \<and> fst e \<noteq> NoiseTypeEnd)"

text \<open>The entry of a map under a key, empty when the key is absent.\<close>

definition entry :: "('k \<times> noise_map) list \<Rightarrow> 'k \<Rightarrow> noise_map" where
  "entry m k = (case map_of m k of None \<Rightarrow> [] | Some e \<Rightarrow> e)"

text \<open>
  The crosstalk opcodes of a one-qubit gate \<open>g\<close> on \<open>q\<close>: for each key \<open>(g, (q, q'))\<close> of
  \<^verbatim>\<open>gate_error2q\<close>, in key order, the opcodes of its entry on \<open>[q, q']\<close>.
\<close>

definition crosstalk_opcodes ::
  "SupportOperationType \<Rightarrow> nat \<Rightarrow> ((SupportOperationType \<times> nat \<times> nat) \<times> noise_map) list
    \<Rightarrow> OpcodeType list" where
  "crosstalk_opcodes g q m =
     concat (map (\<lambda>((g', a, b), e). noise_opcodes [q, b] e)
               (filter (\<lambda>((g', a, b), e). g' = g \<and> a = q) m))"

definition is_noise_opcode :: "OpcodeType \<Rightarrow> bool" where
  "is_noise_opcode opc =
     (case op opc of
        NoiseTag t \<Rightarrow> length (parameters opc) = 1 \<and> \<not> dagger opc \<and> global_controller opc = []
      | GateTag g \<Rightarrow> False)"

text \<open>The gate opcode a recording call appends; none when the gate name is unknown.\<close>

fun gate_opcode :: "SupportOperationType \<Rightarrow> nat list \<Rightarrow> real list \<Rightarrow> bool \<Rightarrow> nat list \<Rightarrow> OpcodeType" where
  "gate_opcode g qs ps d c =
     \<lparr>op = GateTag g, qubits = qs, parameters = ps, dagger = d, global_controller = c\<rparr>"

fun recorded_opcode :: "mutator \<Rightarrow> OpcodeType option" where
  "recorded_opcode (Mut_id qn c d) = Some (gate_opcode IDENTITY [qn] [] d c)"
| "recorded_opcode (Mut_hadamard qn c d) = Some (gate_opcode HADAMARD [qn] [] d c)"
| "recorded_opcode (Mut_u22 qn u c d) =
     Some (gate_opcode U22 [qn]
       (case u of (u0, u1, u2, u3) \<Rightarrow> [Re u0, Im u0, Re u1, Im u1, Re u2, Im u2, Re u3, Im u3]) d c)"
| "recorded_opcode (Mut_x qn c d) = Some (gate_opcode X [qn] [] d c)"
| "recorded_opcode (Mut_y qn c d) = Some (gate_opcode Y [qn] [] d c)"
| "recorded_opcode (Mut_z qn c d) = Some (gate_opcode Z [qn] [] d c)"
| "recorded_opcode (Mut_sx qn c d) = Some (gate_opcode SX [qn] [] d c)"
| "recorded_opcode (Mut_cz q1 q2 c d) = Some (gate_opcode CZ [q1, q2] [] d c)"
| "recorded_opcode (Mut_swap q1 q2 c d) = Some (gate_opcode SWAP [q1, q2] [] d c)"
| "recorded_opcode (Mut_xy q1 q2 theta c d) = Some (gate_opcode XY [q1, q2] [theta] d c)"
| "recorded_opcode (Mut_iswap q1 q2 c d) = Some (gate_opcode ISWAP [q1, q2] [] d c)"
| "recorded_opcode (Mut_cnot q1 q2 c d) = Some (gate_opcode CNOT [q1, q2] [] d c)"
| "recorded_opcode (Mut_rx qn theta c d) = Some (gate_opcode RX [qn] [theta] d c)"
| "recorded_opcode (Mut_ry qn theta c d) = Some (gate_opcode RY [qn] [theta] d c)"
| "recorded_opcode (Mut_rz qn theta c d) = Some (gate_opcode RZ [qn] [theta] d c)"
| "recorded_opcode (Mut_rphi90 qn phi c d) = Some (gate_opcode RPHI90 [qn] [phi] d c)"
| "recorded_opcode (Mut_rphi180 qn phi c d) = Some (gate_opcode RPHI180 [qn] [phi] d c)"
| "recorded_opcode (Mut_rphi qn phi theta c d) = Some (gate_opcode RPHI [qn] [phi, theta] d c)"
| "recorded_opcode (Mut_toffoli q1 q2 t c d) = Some (gate_opcode TOFFOLI [q1, q2, t] [] d c)"
| "recorded_opcode (Mut_cswap q1 q2 t c d) = Some (gate_opcode CSWAP [q1, q2, t] [] d c)"
| "recorded_opcode (Mut_load_opcode opstr qs ps d c) =
     (case string_to_SupportOperationType opstr of
        Inl e \<Rightarrow> None
      | Inr g \<Rightarrow> Some (gate_opcode g qs ps d c))"

text \<open>A sequence of recording calls; a call that throws leaves the object as it is then.\<close>

fun record_calls :: "mutator list \<Rightarrow> 'st NoisySimulator \<Rightarrow> 'st NoisySimulator" where
  "record_calls [] s = s"
| "record_calls (c # cs) s = record_calls cs (final (record_call c s))"

text \<open>A kernel that never throws and keeps the trace of the calls it was given.\<close>

definition trace_kernel :: "(sim_call list) kernel" where
  "trace_kernel c tr = Inr (tr @ [c])"

text \<open>A freshly constructed simulator of a given class, with the given noise maps.\<close>

definition fresh_simulator ::
  "policy \<Rightarrow> nat \<Rightarrow> noise_map \<Rightarrow> ((SupportOperationType \<times> nat) \<times> noise_map) list
    \<Rightarrow> ((SupportOperationType \<times> nat \<times> nat) \<times> noise_map) list \<Rightarrow> (sim_call list) NoisySimulator" where
  "fresh_simulator pol n gn e1 e2 =
     \<lparr>noise = gn, gate_dependent_noise = [], gate_error1q = e1, gate_error2q = e2,
      measurement_error_matrices = [], simulator = [], nqubit = n, measure_qubits = [],
      measure_map = [], opcodes = [], policy = pol\<rparr>"

text \<open>
  A gate-and-qubit-specific configuration on two qubits: global depolarizing, a bit flip
  for Hadamard on qubit 0, and one \<^verbatim>\<open>gate_error2q\<close> key \<open>(HADAMARD, (0, 1))\<close> whose
  entry holds two channels.
\<close>

definition crosstalk_example :: "(sim_call list) NoisySimulator" where
  "crosstalk_example =
     fresh_simulator GateSpecificError 2 [(Depolarizing, 1 / 10)]
       [((HADAMARD, 0), [(BitFlip, 1 / 5)])]
       [((HADAMARD, 0, 1), [(Depolarizing, 3 / 10), (PhaseFlip, 2 / 5)])]"

text \<open>The noise name tokens of the interface.\<close>

definition noise_tokens :: "string list" where
  "noise_tokens = [''depolarizing'', ''damping'', ''bitflip'', ''phaseflip'', ''twoqubit_depolarizing'']"

text \<open>
  The rounding that changes nothing.  On an input where every intermediate result is a
  double, it is what the machine computes.
\<close>

definition exact :: "real \<Rightarrow> fp" where
  "exact x = Fin x"

text \<open>
  Modelled from the spec: \<^verbatim>\<open>abs_sqr\<close>, a helper of a header that is missing from the
  sources: the squared magnitude \<open>re\<^sup>2 + im\<^sup>2\<close> of an amplitude, in double arithmetic.
\<close>

definition abs_sqr_rounded :: "(real \<Rightarrow> fp) \<Rightarrow> complex_t \<Rightarrow> fp" where
  "abs_sqr_rounded rnd z = fadd rnd (fmul rnd (fst z) (fst z)) (fmul rnd (snd z) (snd z))"

text \<open>The sum that a loop \<^verbatim>\<open>acc += x\<close> accumulates from \<open>0\<close>, term by term.\<close>

definition fsum :: "(real \<Rightarrow> fp) \<Rightarrow> fp list \<Rightarrow> fp" where
  "fsum rnd xs = fold (\<lambda>x acc. fadd rnd acc x) xs (Fin 0)"

text \<open>
  The remainder of the draw \<open>r\<close> when the sampler arrives at index \<open>i\<close>: the magnitudes
  \<open>a 0, \<dots>, a (i - 1)\<close> subtracted from \<open>r\<close>, one after the other.
\<close>

fun remainder :: "(real \<Rightarrow> fp) \<Rightarrow> (nat \<Rightarrow> fp) \<Rightarrow> fp \<Rightarrow> nat \<Rightarrow> fp" where
  "remainder rnd a r 0 = r"
| "remainder rnd a r (Suc i) = fsub rnd (remainder rnd a r i) (a i)"

text \<open>A one-qubit simulator in the state \<open>(0, 1)\<close>, that is \<open>|1\<rangle>\<close>.\<close>

definition boundary_state_example :: "Simulator NoisySimulator" where
  "boundary_state_example =
     \<lparr>noise = [], gate_dependent_noise = [], gate_error1q = [], gate_error2q = [],
      measurement_error_matrices = [],
      simulator = \<lparr>total_qubit = 1, state = [(Fin 0, Fin 0), (Fin 1, Fin 0)]\<rparr>,
      nqubit = 1, measure_qubits = [], measure_map = [], opcodes = [], policy = Global\<rparr>"

text \<open>
  The probabilities that \<^verbatim>\<open>damping\<close> accumulates over the indices \<open>i\<close> in which bit \<open>qn\<close>
  is set, in increasing order: for the decay \<open>|\<surd>p \<cdot> \<psi>[i]|\<^sup>2\<close>, for the no-decay
  \<open>|\<surd>(1 - p) \<cdot> \<psi>[i]|\<^sup>2 + |\<psi>[i - 2\<^sup>q\<^sup>n]|\<^sup>2\<close>.
\<close>

definition decay_probability ::
  "(real \<Rightarrow> fp) \<Rightarrow> (complex_t \<Rightarrow> fp) \<Rightarrow> Simulator \<Rightarrow> nat \<Rightarrow> fp \<Rightarrow> fp" where
  "decay_probability rnd abs_sqr s qn p =
     fsum rnd (map (\<lambda>i. abs_sqr (cmul rnd (state s ! i) (fsqrt rnd p)))
                 (filter (\<lambda>i. qubit_is_one i qn) [0..<pow2 (total_qubit s)]))"

definition no_decay_probability ::
  "(real \<Rightarrow> fp) \<Rightarrow> (complex_t \<Rightarrow> fp) \<Rightarrow> Simulator \<Rightarrow> nat \<Rightarrow> fp \<Rightarrow> fp" where
  "no_decay_probability rnd abs_sqr s qn p =
     fsum rnd (map (\<lambda>i. fadd rnd (abs_sqr (cmul rnd (state s ! i) (fsqrt rnd (fsub rnd (Fin 1) p))))
                              (abs_sqr (state s ! (i - pow2 qn))))
                 (filter (\<lambda>i. qubit_is_one i qn) [0..<pow2 (total_qubit s)]))"

text \<open>
  The amplitude at index \<open>i\<close> after the decay branch (\<open>\<psi>[i0] \<leftarrow> \<psi>[i1]\<close>, \<open>\<psi>[i1] \<leftarrow> 0\<close>)
  and after the no-decay branch (\<open>\<psi>[i1] \<leftarrow> \<surd>(1 - p) \<cdot> \<psi>[i1]\<close>), before renormalization.
\<close>

definition decay_amplitude :: "Simulator \<Rightarrow> nat \<Rightarrow> nat \<Rightarrow> complex_t" where
  "decay_amplitude s qn i =
     (if qubit_is_one i qn then (Fin 0, Fin 0) else state s ! (i + pow2 qn))"

definition no_decay_amplitude :: "(real \<Rightarrow> fp) \<Rightarrow> Simulator \<Rightarrow> nat \<Rightarrow> fp \<Rightarrow> nat \<Rightarrow> complex_t" where
  "no_decay_amplitude rnd s qn p i =
     (if qubit_is_one i qn then cmul rnd (state s ! i) (fsqrt rnd (fsub rnd (Fin 1) p))
      else state s ! i)"

text \<open>Renormalization: every amplitude divided by \<open>\<surd>(\<Sum>|\<psi>[i]|\<^sup>2)\<close>.\<close>

definition normalized ::
  "(real \<Rightarrow> fp) \<Rightarrow> (complex_t \<Rightarrow> fp) \<Rightarrow> nat \<Rightarrow> (nat \<Rightarrow> complex_t) \<Rightarrow> complex_t list" where
  "normalized rnd abs_sqr N a =
     map (\<lambda>i. cdiv rnd (a i) (fsqrt rnd (fsum rnd (map (\<lambda>j. abs_sqr (a j)) [0..<N])))) [0..<N]"

text \<open>
  The state \<open>|1\<rangle>\<close> of one qubit, and the vector \<open>(1, 2\<^sup>-\<^sup>1\<^sup>6)\<close>, whose squared norm
  \<open>1 + 2\<^sup>-\<^sup>3\<^sup>2\<close> is within \<open>10\<^sup>-\<^sup>9\<close> of 1.
\<close>

definition excited_qubit :: Simulator where
  "excited_qubit = \<lparr>total_qubit = 1, state = [(Fin 0, Fin 0), (Fin 1, Fin 0)]\<rparr>"

definition near_normalized_qubit :: Simulator where
  "near_normalized_qubit = \<lparr>total_qubit = 1, state = [(Fin 1, Fin 0), (Fin (1 / 65536), Fin 0)]\<rparr>"

section \<open>The recorder appends, and only appends\<close>

lemma insert_generic_error_eq:
  "insert_generic_error qs m s = append_opcodes (noise_opcodes qs m) s"
proof (induction m arbitrary: s)
  case Nil
  show ?case by (simp add: append_opcodes_def noise_opcodes_def)
next
  case (Cons e m)
  obtain t p where e: "e = (t, p)" by (cases e)
  show ?case
    by (simp add: e Cons.IH) (simp add: append_opcodes_def noise_opcodes_def emplace_back_def)
qed

lemma append_opcodes_append:
  "append_opcodes b (append_opcodes a s) = append_opcodes (a @ b) s"
  by (simp add: append_opcodes_def)

lemma append_opcodes_fields [simp]:
  "noise (append_opcodes a s) = noise s"
  "gate_dependent_noise (append_opcodes a s) = gate_dependent_noise s"
  "gate_error1q (append_opcodes a s) = gate_error1q s"
  "gate_error2q (append_opcodes a s) = gate_error2q s"
  "policy (append_opcodes a s) = policy s"
  "simulator (append_opcodes a s) = simulator s"
  "opcodes (append_opcodes a s) = opcodes s @ a"
  by (simp_all add: append_opcodes_def)

lemma insert_gate_error1q_eq:
  "insert_gate_error1q g q s = append_opcodes (noise_opcodes [q] (entry (gate_error1q s) (g, q))) s"
  by (cases "gate_error1q s")
     (auto simp: insert_gate_error1q_def entry_def insert_generic_error_eq append_opcodes_def
        noise_opcodes_def split: option.splits)

lemma crosstalk_loop_eq:
  "crosstalk_loop g q m s = append_opcodes (crosstalk_opcodes g q m) s"
proof (induction m arbitrary: s)
  case Nil
  show ?case by (simp add: crosstalk_opcodes_def append_opcodes_def)
next
  case (Cons e m)
  obtain g' a b x where e: "e = ((g', a, b), x)" by (cases e) auto
  have c: "crosstalk_opcodes g q (e # m) =
     (if g' = g \<and> a = q then noise_opcodes [q, b] x else []) @ crosstalk_opcodes g q m"
    by (simp add: crosstalk_opcodes_def e)
  show ?case
    by (simp add: e Cons.IH insert_generic_error_eq append_opcodes_append c[unfolded e])
qed

lemma insert_gate_error2q_eq:
  "insert_gate_error2q g q1 q2 s =
     append_opcodes (if q2 = size_t_minus_one then crosstalk_opcodes g q1 (gate_error2q s)
                     else noise_opcodes [q1, q2] (entry (gate_error2q s) (g, q1, q2))) s"
  by (cases "gate_error2q s")
     (auto simp: insert_gate_error2q_def entry_def insert_generic_error_eq crosstalk_loop_eq
        crosstalk_opcodes_def append_opcodes_def noise_opcodes_def split: option.splits)


lemma noise_opcodes_are_noise: "list_all is_noise_opcode (noise_opcodes qs m)"
  by (induction m) (auto simp: noise_opcodes_def is_noise_opcode_def)

lemma crosstalk_opcodes_are_noise: "list_all is_noise_opcode (crosstalk_opcodes g q m)"
proof (induction m)
  case Nil
  show ?case by (simp add: crosstalk_opcodes_def)
next
  case (Cons e m)
  obtain g' a b x where e: "e = ((g', a, b), x)" by (cases e) auto
  have c: "crosstalk_opcodes g q (e # m) =
     (if g' = g \<and> a = q then noise_opcodes [q, b] x else []) @ crosstalk_opcodes g q m"
    by (simp add: crosstalk_opcodes_def e)
  show ?case using Cons.IH by (simp add: c noise_opcodes_are_noise)
qed


lemma insert_global_loop_eq:
  "insert_global_loop qs m s =
     (if list_all channel_key m
      then Returned (append_opcodes (noise_opcodes qs m) s)
      else Threw (RuntimeError (''General noise type does not belong to the following: ''
                    @ ''Depolarizing Damping BitFlip PhaseFlip.''))
             (append_opcodes (noise_opcodes qs (takeWhile channel_key m)) s))"
proof (induction m arbitrary: s)
  case Nil
  show ?case by (simp add: append_opcodes_def noise_opcodes_def)
next
  case (Cons e m)
  obtain t p where e: "e = (t, p)" by (cases e)
  have k: "channel_key (t, p) \<longleftrightarrow> \<not> (NoiseType_index t \<le> NoiseType_index NoiseTypeBegin
         \<or> NoiseType_index t \<ge> NoiseType_index NoiseTypeEnd)"
    by (cases t) (simp_all add: channel_key_def)
  have step: "append_opcodes (noise_opcodes qs xs)
       (emplace_back \<lparr>op = NoiseTag t, qubits = qs, parameters = [p], dagger = False,
          global_controller = []\<rparr> s) = append_opcodes (noise_opcodes qs ((t, p) # xs)) s" for xs
    by (simp add: append_opcodes_def noise_opcodes_def emplace_back_def)
  show ?case
  proof (cases "channel_key (t, p)")
    case True
    with k show ?thesis by (simp add: e Cons.IH step del: NoiseType_index.simps)
  next
    case False
    with k show ?thesis
      by (simp add: e del: NoiseType_index.simps) (simp add: append_opcodes_def noise_opcodes_def)
  qed
qed

lemma insert_error_final:
  "\<exists>ns. final (insert_error qs g s) = append_opcodes ns s \<and> list_all is_noise_opcode ns"
proof -
  let ?G = "noise_opcodes qs (takeWhile channel_key (noise s))"
  have G: "list_all channel_key (noise s) \<Longrightarrow> takeWhile channel_key (noise s) = noise s"
    by (simp add: list_all_iff)
  show ?thesis
  proof (cases "policy s")
    case Global
    then have "final (insert_error qs g s) = append_opcodes ?G s"
      by (simp add: insert_error_def NoisySimulator_insert_error_def insert_global_error_def
            insert_global_loop_eq G)
    then show ?thesis using noise_opcodes_are_noise by blast
  next
    case GateDependent
    have "final (insert_error qs g s) =
       append_opcodes (?G @ (if list_all channel_key (noise s)
            then noise_opcodes qs (entry (gate_dependent_noise s) g) else [])) s"
      using GateDependent
      by (cases "gate_dependent_noise s")
         (auto simp: insert_error_def NoisySimulator_GateDependent_insert_error_def
            insert_global_error_def insert_global_loop_eq G insert_gate_dependent_error_def
            insert_generic_error_eq append_opcodes_append entry_def noise_opcodes_def
            split: option.splits)
    moreover have "list_all is_noise_opcode (?G @ (if list_all channel_key (noise s)
            then noise_opcodes qs (entry (gate_dependent_noise s) g) else []))"
      by (simp add: noise_opcodes_are_noise)
    ultimately show ?thesis by blast
  next
    case GateSpecificError
    have "\<exists>ns. final (insert_error qs g s) = append_opcodes (?G @ ns) s \<and> list_all is_noise_opcode ns"
    proof (cases "list_all channel_key (noise s)")
      case False
      then have "final (insert_error qs g s) = append_opcodes (?G @ []) s"
        using GateSpecificError
        by (simp add: insert_error_def NoisySimulator_GateSpecificError_insert_error_def
            insert_global_error_def insert_global_loop_eq)
      then show ?thesis by (intro exI[of _ "[]"]) simp
    next
      case True
      let ?s1 = "append_opcodes (noise_opcodes qs (noise s)) s"
      have g: "insert_global_error qs' s = Returned (append_opcodes (noise_opcodes qs' (noise s)) s)"
        for qs' using True by (simp add: insert_global_error_def insert_global_loop_eq)
      consider (one) "gate_qubit_count g = 1" "length qs < 1"
        | (one') "gate_qubit_count g = 1" "\<not> length qs < 1"
        | (two) "gate_qubit_count g = 2" "length qs < 2"
        | (two') "gate_qubit_count g = 2" "\<not> length qs < 2"
        | (other) "gate_qubit_count g \<noteq> 1" "gate_qubit_count g \<noteq> 2"
        by fastforce
      then show ?thesis
      proof cases
        case one
        then have "final (insert_error qs g s) = append_opcodes (?G @ []) s"
          using GateSpecificError True
          by (simp add: insert_error_def NoisySimulator_GateSpecificError_insert_error_def g G)
        then show ?thesis by (intro exI[of _ "[]"]) simp
      next
        case one'
        let ?ns = "noise_opcodes [qs ! 0] (entry (gate_error1q s) (g, qs ! 0))
                   @ crosstalk_opcodes g (qs ! 0) (gate_error2q s)"
        have "final (insert_error qs g s) = append_opcodes (?G @ ?ns) s"
          using GateSpecificError True one'
          by (simp add: insert_error_def NoisySimulator_GateSpecificError_insert_error_def g G
                insert_gate_error1q_eq insert_gate_error2q_eq append_opcodes_append)
        moreover have "list_all is_noise_opcode ?ns"
          by (simp add: noise_opcodes_are_noise crosstalk_opcodes_are_noise)
        ultimately show ?thesis by blast
      next
        case two
        then have "final (insert_error qs g s) = append_opcodes (?G @ []) s"
          using GateSpecificError True
          by (simp add: insert_error_def NoisySimulator_GateSpecificError_insert_error_def g G)
        then show ?thesis by (intro exI[of _ "[]"]) simp
      next
        case two'
        let ?ns = "(if qs ! 1 = size_t_minus_one then crosstalk_opcodes g (qs ! 0) (gate_error2q s)
                     else noise_opcodes [qs ! 0, qs ! 1] (entry (gate_error2q s) (g, qs ! 0, qs ! 1)))
                   @ noise_opcodes [qs ! 0] (entry (gate_error1q s) (g, qs ! 0))
                   @ noise_opcodes [qs ! 1] (entry (gate_error1q s) (g, qs ! 1))"
        have "final (insert_error qs g s) = append_opcodes (?G @ ?ns) s"
          using GateSpecificError True two'
          by (simp add: insert_error_def NoisySimulator_GateSpecificError_insert_error_def g G
                insert_gate_error1q_eq insert_gate_error2q_eq append_opcodes_append)
        moreover have "list_all is_noise_opcode ?ns"
          by (simp add: noise_opcodes_are_noise crosstalk_opcodes_are_noise)
        ultimately show ?thesis by blast
      next
        case other
        then have "final (insert_error qs g s) = append_opcodes (?G @ []) s"
          using GateSpecificError True
          by (simp add: insert_error_def NoisySimulator_GateSpecificError_insert_error_def g G)
        then show ?thesis by (intro exI[of _ "[]"]) simp
      qed
    qed
    then obtain ns where "final (insert_error qs g s) = append_opcodes (?G @ ns) s"
      "list_all is_noise_opcode ns" by blast
    then show ?thesis using noise_opcodes_are_noise[of qs "takeWhile channel_key (noise s)"]
      by (intro exI[of _ "?G @ ns"]) simp
  qed
qed

lemma emplace_back_append: "append_opcodes ns (emplace_back g s) = append_opcodes (g # ns) s"
  by (simp add: append_opcodes_def emplace_back_def)

lemma record_gate_final:
  "\<exists>ns. final (insert_error qs g (emplace_back opc s)) = append_opcodes (opc # ns) s
      \<and> list_all is_noise_opcode ns"
  using insert_error_final[of qs g "emplace_back opc s"] by (simp add: emplace_back_append)

lemma record_call_known:
  "recorded_opcode c = Some opc \<Longrightarrow>
   \<exists>ns. final (record_call c s) = append_opcodes (opc # ns) s \<and> list_all is_noise_opcode ns"
proof (cases c)
  case (Mut_load_opcode opstr qs ps d ctl)
  assume "recorded_opcode c = Some opc"
  then show ?thesis using Mut_load_opcode record_gate_final
    by (auto simp: load_opcode_def split: sum.splits)
qed (use record_gate_final in \<open>auto simp: id_gate_def hadamard_def u22_def x_gate_def y_gate_def
      z_gate_def sx_def cz_def swap_gate_def xy_def iswap_def cnot_def rx_def ry_def rz_def
      rphi90_def rphi180_def rphi_def toffoli_def cswap_def\<close>)

lemma record_call_unknown:
  "recorded_opcode c = None \<Longrightarrow> \<exists>e. record_call c s = Threw e s"
  by (cases c) (auto simp: load_opcode_def split: sum.splits)


lemma record_call_unfold:
  "recorded_opcode c = Some opc \<Longrightarrow> op opc = GateTag g \<Longrightarrow>
   record_call c s = insert_error (qubits opc) g (emplace_back opc s)"
  by (cases c)
     (auto simp: id_gate_def hadamard_def u22_def x_gate_def y_gate_def
      z_gate_def sx_def cz_def swap_gate_def xy_def iswap_def cnot_def rx_def ry_def rz_def
      rphi90_def rphi180_def rphi_def toffoli_def cswap_def load_opcode_def split: sum.splits)

lemma append_opcodes_frame: "append_opcodes ns s = s\<lparr>opcodes := opcodes s @ ns\<rparr>"
  by (simp add: append_opcodes_def)

text \<open>
  Claim C9.  A recording call, whichever mutator it is (or \<^verbatim>\<open>load_opcode\<close>) and
  whatever the noise policy, leaves the member \<^verbatim>\<open>simulator\<close>, which holds the state
  vector, as it was, and every other member except the opcode stream too.  The stream
  is the old stream followed by the gate opcode and then noise opcodes only; when
  \<^verbatim>\<open>load_opcode\<close> does not know the gate name, the stream is the old one.  This holds
  also when the call throws.
\<close>

theorem recording_leaves_state_vector:
  "simulator (final (record_call c s)) = simulator s
   \<and> final (record_call c s) = s\<lparr>opcodes := opcodes (final (record_call c s))\<rparr>
   \<and> (case recorded_opcode c of
        None \<Rightarrow> opcodes (final (record_call c s)) = opcodes s
      | Some g \<Rightarrow> \<exists>ns. opcodes (final (record_call c s)) = opcodes s @ g # ns
                       \<and> list_all is_noise_opcode ns)"
proof (cases "recorded_opcode c")
  case None
  from record_call_unknown[OF None, of s] obtain e where "record_call c s = Threw e s" ..
  then show ?thesis using None by simp
next
  case (Some g)
  from record_call_known[OF Some, of s] obtain ns
    where f: "final (record_call c s) = append_opcodes (g # ns) s"
      and n: "list_all is_noise_opcode ns" by blast
  have "opcodes (final (record_call c s)) = opcodes s @ g # ns"
    by (simp add: f)
  then show ?thesis using Some n by (auto simp: f append_opcodes_frame)
qed

theorem recording_leaves_state_vector_witness:
  "simulator (final (record_call (Mut_cnot 0 1 [] False)
        (fresh_simulator Global 2 [(Depolarizing, 1 / 10)] [] []))) = []
   \<and> opcodes (final (record_call (Mut_cnot 0 1 [] False)
        (fresh_simulator Global 2 [(Depolarizing, 1 / 10)] [] []))) =
      [gate_opcode CNOT [0, 1] [] False [],
       \<lparr>op = NoiseTag Depolarizing, qubits = [0, 1], parameters = [1 / 10], dagger = False,
        global_controller = []\<rparr>]"
  using recording_leaves_state_vector [of "Mut_cnot 0 1 [] False"
      "fresh_simulator Global 2 [(Depolarizing, 1 / 10)] [] []"]
  by (simp add: fresh_simulator_def cnot_def insert_error_def NoisySimulator_insert_error_def
        insert_global_error_def emplace_back_def)

section \<open>What a failed recording leaves behind\<close>

lemma insert_error_of_gate_specific:
  assumes "policy s = GateSpecificError" and "list_all channel_key (noise s)"
  shows "insert_error qs g s =
     (let s1 = append_opcodes (noise_opcodes qs (noise s)) s in
      if gate_qubit_count g = 1 then
        (if length qs < 1 then Threw OutOfBounds s1
         else Returned (append_opcodes
                (noise_opcodes [qs ! 0] (entry (gate_error1q s) (g, qs ! 0))
                 @ crosstalk_opcodes g (qs ! 0) (gate_error2q s)) s1))
      else if gate_qubit_count g = 2 then
        (if length qs < 2 then Threw OutOfBounds s1
         else Returned (append_opcodes
                ((if qs ! 1 = size_t_minus_one then crosstalk_opcodes g (qs ! 0) (gate_error2q s)
                  else noise_opcodes [qs ! 0, qs ! 1] (entry (gate_error2q s) (g, qs ! 0, qs ! 1)))
                 @ noise_opcodes [qs ! 0] (entry (gate_error1q s) (g, qs ! 0))
                 @ noise_opcodes [qs ! 1] (entry (gate_error1q s) (g, qs ! 1))) s1))
      else Threw (RuntimeError (''[Fatal] Error type and gate qubit count ''
                     @ ''is not correctly specified, which is not as expected.'')) s1)"
  using assms
  by (simp add: insert_error_def NoisySimulator_GateSpecificError_insert_error_def
        insert_global_error_def insert_global_loop_eq Let_def
        insert_gate_error1q_eq insert_gate_error2q_eq append_opcodes_append)

text \<open>
  Claim C7, as the code has it.  When \<^verbatim>\<open>load_opcode\<close> throws because it does not
  know the gate name, the simulator, and so the opcode stream, is exactly as before the
  call.  Whenever any other recording call throws, the gate opcode has already been
  appended and stays in the stream, followed by the noise opcodes appended before the
  throw: under the gate-and-qubit-specific policy, a gate whose qubit count is neither
  1 nor 2 leaves the stream extended by the gate opcode and the global-noise opcodes.
\<close>

theorem recording_error_keeps_appended_opcodes:
  "(string_to_SupportOperationType opstr = Inl e \<longrightarrow>
      load_opcode opstr qs ps d ctl s = Threw e s)
   \<and> (record_call c s = Threw e' s' \<and> recorded_opcode c = Some opc \<longrightarrow>
        (\<exists>ns. opcodes s' = opcodes s @ opc # ns \<and> list_all is_noise_opcode ns))
   \<and> (policy s = GateSpecificError \<and> list_all channel_key (noise s)
        \<and> recorded_opcode c = Some opc \<and> op opc = GateTag g
        \<and> gate_qubit_count g \<noteq> 1 \<and> gate_qubit_count g \<noteq> 2 \<longrightarrow>
        record_call c s =
          Threw (RuntimeError (''[Fatal] Error type and gate qubit count ''
                   @ ''is not correctly specified, which is not as expected.''))
            (append_opcodes (opc # noise_opcodes (qubits opc) (noise s)) s))"
proof (intro conjI impI)
  assume "string_to_SupportOperationType opstr = Inl e"
  then show "load_opcode opstr qs ps d ctl s = Threw e s"
    by (simp add: load_opcode_def)
next
  assume a: "record_call c s = Threw e' s' \<and> recorded_opcode c = Some opc"
  then have "final (record_call c s) = s'" by simp
  with record_call_known[of c opc s] a
  show "\<exists>ns. opcodes s' = opcodes s @ opc # ns \<and> list_all is_noise_opcode ns"
    by auto
next
  assume a: "policy s = GateSpecificError \<and> list_all channel_key (noise s)
        \<and> recorded_opcode c = Some opc \<and> op opc = GateTag g
        \<and> gate_qubit_count g \<noteq> 1 \<and> gate_qubit_count g \<noteq> 2"
  then have u: "record_call c s = insert_error (qubits opc) g (emplace_back opc s)"
    by (simp add: record_call_unfold)
  have p: "policy (emplace_back opc s) = GateSpecificError"
    and n: "list_all channel_key (noise (emplace_back opc s))"
    using a by (simp_all add: emplace_back_def)
  show "record_call c s =
          Threw (RuntimeError (''[Fatal] Error type and gate qubit count ''
                   @ ''is not correctly specified, which is not as expected.''))
            (append_opcodes (opc # noise_opcodes (qubits opc) (noise s)) s)"
    using a unfolding u insert_error_of_gate_specific[OF p n]
    by (simp add: emplace_back_append) (simp add: emplace_back_def)
qed

theorem recording_error_keeps_appended_opcodes_witness:
  "string_to_SupportOperationType ''FOO'' =
      Inl (RuntimeError (''Failed to handle gate_str: FOO'' @ [CHR 0x0A] @ ''Please check.''))
   \<and> load_opcode ''FOO'' [0] [] False [] (fresh_simulator GateSpecificError 3 [(BitFlip, 1 / 4)] [] []) =
      Threw (RuntimeError (''Failed to handle gate_str: FOO'' @ [CHR 0x0A] @ ''Please check.''))
        (fresh_simulator GateSpecificError 3 [(BitFlip, 1 / 4)] [] [])
   \<and> record_call (Mut_toffoli 0 1 2 [] False)
        (fresh_simulator GateSpecificError 3 [(BitFlip, 1 / 4)] [] []) =
      Threw (RuntimeError (''[Fatal] Error type and gate qubit count ''
               @ ''is not correctly specified, which is not as expected.''))
        (append_opcodes [gate_opcode TOFFOLI [0, 1, 2] [] False [],
            \<lparr>op = NoiseTag BitFlip, qubits = [0, 1, 2], parameters = [1 / 4], dagger = False,
             global_controller = []\<rparr>]
          (fresh_simulator GateSpecificError 3 [(BitFlip, 1 / 4)] [] []))
   \<and> (\<exists>ns. opcodes (append_opcodes [gate_opcode TOFFOLI [0, 1, 2] [] False [],
            \<lparr>op = NoiseTag BitFlip, qubits = [0, 1, 2], parameters = [1 / 4], dagger = False,
             global_controller = []\<rparr>]
          (fresh_simulator GateSpecificError 3 [(BitFlip, 1 / 4)] [] [])) =
        opcodes (fresh_simulator GateSpecificError 3 [(BitFlip, 1 / 4)] [] [])
          @ gate_opcode TOFFOLI [0, 1, 2] [] False [] # ns \<and> list_all is_noise_opcode ns)"
proof -
  let ?s = "fresh_simulator GateSpecificError 3 [(BitFlip, 1 / 4)] [] []"
  let ?e = "RuntimeError (''Failed to handle gate_str: FOO'' @ [CHR 0x0A] @ ''Please check.'')"
  let ?f = "RuntimeError (''[Fatal] Error type and gate qubit count ''
               @ ''is not correctly specified, which is not as expected.'')"
  let ?s' = "append_opcodes [gate_opcode TOFFOLI [0, 1, 2] [] False [],
            \<lparr>op = NoiseTag BitFlip, qubits = [0, 1, 2], parameters = [1 / 4], dagger = False,
             global_controller = []\<rparr>] ?s"
  have p: "string_to_SupportOperationType ''FOO'' = Inl ?e"
    by (simp add: string_to_SupportOperationType_def)
  have h: "policy ?s = GateSpecificError \<and> list_all channel_key (noise ?s)
        \<and> recorded_opcode (Mut_toffoli 0 1 2 [] False) = Some (gate_opcode TOFFOLI [0, 1, 2] [] False [])
        \<and> op (gate_opcode TOFFOLI [0, 1, 2] [] False []) = GateTag TOFFOLI
        \<and> gate_qubit_count TOFFOLI \<noteq> 1 \<and> gate_qubit_count TOFFOLI \<noteq> 2"
    by (simp add: fresh_simulator_def channel_key_def)
  note t = recording_error_keeps_appended_opcodes [where opstr = "''FOO''" and e = ?e
      and qs = "[0]" and ps = "[]" and d = False and ctl = "[]" and s = ?s
      and c = "Mut_toffoli 0 1 2 [] False" and e' = ?f and s' = ?s'
      and opc = "gate_opcode TOFFOLI [0, 1, 2] [] False []" and g = TOFFOLI]
  from t p have 1: "load_opcode ''FOO'' [0] [] False [] ?s = Threw ?e ?s" by blast
  from t h have 2: "record_call (Mut_toffoli 0 1 2 [] False) ?s = Threw ?f ?s'"
    by (simp add: noise_opcodes_def fresh_simulator_def)
  from t 2 h have 3: "\<exists>ns. opcodes ?s' = opcodes ?s @ gate_opcode TOFFOLI [0, 1, 2] [] False [] # ns
       \<and> list_all is_noise_opcode ns" by blast
  from p 1 2 3 show ?thesis by blast
qed

text \<open>
  Claim C7 as written fails: a Toffoli recorded under the gate-and-qubit-specific
  policy throws, and the stream, empty before the call, holds the Toffoli opcode after.
\<close>

theorem recording_error_counterexample:
  "toffoli 0 1 2 [] False (fresh_simulator GateSpecificError 3 [] [] []) =
     Threw (RuntimeError (''[Fatal] Error type and gate qubit count ''
              @ ''is not correctly specified, which is not as expected.''))
       ((fresh_simulator GateSpecificError 3 [] [] [])
          \<lparr>opcodes := [gate_opcode TOFFOLI [0, 1, 2] [] False []]\<rparr>)
   \<and> opcodes (fresh_simulator GateSpecificError 3 [] [] []) = []"
  by (simp add: toffoli_def insert_error_def NoisySimulator_GateSpecificError_insert_error_def
        insert_global_error_def fresh_simulator_def emplace_back_def)

section \<open>The gate-and-qubit-specific policy\<close>

text \<open>
  Claim C4, as the code has it.  Under the gate-and-qubit-specific policy (with a global
  noise map whose keys are channels) \<^verbatim>\<open>insert_error\<close> first appends the global-noise
  opcodes on the gate's qubits, and then:
  \<^item> for a gate of qubit count 2 on \<open>(q1, q2)\<close>, \<open>q2\<close> not the sentinel \<open>2\<^sup>6\<^sup>4 - 1\<close>: the
    opcodes of the entry \<open>gate_error2q[(gate, (q1, q2))]\<close> on \<open>[q1, q2]\<close>, then those of
    \<open>gate_error1q[(gate, q1)]\<close> on \<open>[q1]\<close>, then those of \<open>gate_error1q[(gate, q2)]\<close> on
    \<open>[q2]\<close>; when \<open>q2\<close> is the sentinel, the crosstalk scan runs in place of the lookup;
  \<^item> for a gate of qubit count 1 on \<open>q\<close>: the opcodes of \<open>gate_error1q[(gate, q)]\<close> on
    \<open>[q]\<close>, then, for each key \<open>(gate, (q, q'))\<close> of \<open>gate_error2q\<close> in key order, one
    opcode on \<open>[q, q']\<close> for every channel of that key's entry;
  \<^item> for any other qubit count it throws a runtime error, the global-noise opcodes
    already appended.
\<close>

theorem gate_specific_insert_error:
  "policy s = GateSpecificError \<and> list_all channel_key (noise s) \<longrightarrow>
     (gate_qubit_count g = 2 \<and> q2 \<noteq> size_t_minus_one \<longrightarrow>
        insert_error (q1 # q2 # rest) g s =
          Returned (append_opcodes
            (noise_opcodes (q1 # q2 # rest) (noise s)
             @ noise_opcodes [q1, q2] (entry (gate_error2q s) (g, q1, q2))
             @ noise_opcodes [q1] (entry (gate_error1q s) (g, q1))
             @ noise_opcodes [q2] (entry (gate_error1q s) (g, q2))) s))
   \<and> (gate_qubit_count g = 2 \<and> q2 = size_t_minus_one \<longrightarrow>
        insert_error (q1 # q2 # rest) g s =
          Returned (append_opcodes
            (noise_opcodes (q1 # q2 # rest) (noise s)
             @ crosstalk_opcodes g q1 (gate_error2q s)
             @ noise_opcodes [q1] (entry (gate_error1q s) (g, q1))
             @ noise_opcodes [q2] (entry (gate_error1q s) (g, q2))) s))
   \<and> (gate_qubit_count g = 1 \<longrightarrow>
        insert_error (q # rest) g s =
          Returned (append_opcodes
            (noise_opcodes (q # rest) (noise s)
             @ noise_opcodes [q] (entry (gate_error1q s) (g, q))
             @ crosstalk_opcodes g q (gate_error2q s)) s))
   \<and> (gate_qubit_count g \<noteq> 1 \<and> gate_qubit_count g \<noteq> 2 \<longrightarrow>
        insert_error qs g s =
          Threw (RuntimeError (''[Fatal] Error type and gate qubit count ''
                   @ ''is not correctly specified, which is not as expected.''))
            (append_opcodes (noise_opcodes qs (noise s)) s))"
proof (intro impI)
  assume "policy s = GateSpecificError \<and> list_all channel_key (noise s)"
  then have p: "policy s = GateSpecificError" and n: "list_all channel_key (noise s)"
    by simp_all
  note eq = insert_error_of_gate_specific[OF p n]
  show "(gate_qubit_count g = 2 \<and> q2 \<noteq> size_t_minus_one \<longrightarrow>
        insert_error (q1 # q2 # rest) g s =
          Returned (append_opcodes
            (noise_opcodes (q1 # q2 # rest) (noise s)
             @ noise_opcodes [q1, q2] (entry (gate_error2q s) (g, q1, q2))
             @ noise_opcodes [q1] (entry (gate_error1q s) (g, q1))
             @ noise_opcodes [q2] (entry (gate_error1q s) (g, q2))) s))
   \<and> (gate_qubit_count g = 2 \<and> q2 = size_t_minus_one \<longrightarrow>
        insert_error (q1 # q2 # rest) g s =
          Returned (append_opcodes
            (noise_opcodes (q1 # q2 # rest) (noise s)
             @ crosstalk_opcodes g q1 (gate_error2q s)
             @ noise_opcodes [q1] (entry (gate_error1q s) (g, q1))
             @ noise_opcodes [q2] (entry (gate_error1q s) (g, q2))) s))
   \<and> (gate_qubit_count g = 1 \<longrightarrow>
        insert_error (q # rest) g s =
          Returned (append_opcodes
            (noise_opcodes (q # rest) (noise s)
             @ noise_opcodes [q] (entry (gate_error1q s) (g, q))
             @ crosstalk_opcodes g q (gate_error2q s)) s))
   \<and> (gate_qubit_count g \<noteq> 1 \<and> gate_qubit_count g \<noteq> 2 \<longrightarrow>
        insert_error qs g s =
          Threw (RuntimeError (''[Fatal] Error type and gate qubit count ''
                   @ ''is not correctly specified, which is not as expected.''))
            (append_opcodes (noise_opcodes qs (noise s)) s))"
    by (simp add: eq Let_def append_opcodes_append)
qed

theorem gate_specific_insert_error_witness:
  "policy crosstalk_example = GateSpecificError
   \<and> list_all channel_key (noise crosstalk_example)
   \<and> gate_qubit_count CNOT = 2 \<and> (1 :: nat) \<noteq> size_t_minus_one
   \<and> gate_qubit_count HADAMARD = 1
   \<and> gate_qubit_count TOFFOLI \<noteq> 1 \<and> gate_qubit_count TOFFOLI \<noteq> 2
   \<and> insert_error [0, 1] CNOT crosstalk_example =
       Returned (append_opcodes
         [\<lparr>op = NoiseTag Depolarizing, qubits = [0, 1], parameters = [1 / 10], dagger = False,
           global_controller = []\<rparr>] crosstalk_example)
   \<and> insert_error [0] HADAMARD crosstalk_example =
       Returned (append_opcodes
         [\<lparr>op = NoiseTag Depolarizing, qubits = [0], parameters = [1 / 10], dagger = False,
           global_controller = []\<rparr>,
          \<lparr>op = NoiseTag BitFlip, qubits = [0], parameters = [1 / 5], dagger = False,
           global_controller = []\<rparr>,
          \<lparr>op = NoiseTag Depolarizing, qubits = [0, 1], parameters = [3 / 10], dagger = False,
           global_controller = []\<rparr>,
          \<lparr>op = NoiseTag PhaseFlip, qubits = [0, 1], parameters = [2 / 5], dagger = False,
           global_controller = []\<rparr>] crosstalk_example)
   \<and> insert_error [0, 1, 2] TOFFOLI crosstalk_example =
       Threw (RuntimeError (''[Fatal] Error type and gate qubit count ''
                @ ''is not correctly specified, which is not as expected.''))
         (append_opcodes
           [\<lparr>op = NoiseTag Depolarizing, qubits = [0, 1, 2], parameters = [1 / 10],
             dagger = False, global_controller = []\<rparr>] crosstalk_example)"
proof -
  have h: "policy crosstalk_example = GateSpecificError
      \<and> list_all channel_key (noise crosstalk_example)"
    by (simp add: crosstalk_example_def fresh_simulator_def channel_key_def)
  have m: "(1 :: nat) \<noteq> size_t_minus_one" by (simp add: size_t_minus_one_def)
  have e: "noise crosstalk_example = [(Depolarizing, 1 / 10)]"
      "gate_error1q crosstalk_example = [((HADAMARD, 0), [(BitFlip, 1 / 5)])]"
      "gate_error2q crosstalk_example =
         [((HADAMARD, 0, 1), [(Depolarizing, 3 / 10), (PhaseFlip, 2 / 5)])]"
    by (simp_all add: crosstalk_example_def fresh_simulator_def)
  from gate_specific_insert_error [of crosstalk_example CNOT 1 0 "[]"] h m
  have 1: "insert_error [0, 1] CNOT crosstalk_example =
       Returned (append_opcodes
         [\<lparr>op = NoiseTag Depolarizing, qubits = [0, 1], parameters = [1 / 10], dagger = False,
           global_controller = []\<rparr>] crosstalk_example)"
    by (simp add: e noise_opcodes_def entry_def)
  from gate_specific_insert_error [where s = crosstalk_example and g = HADAMARD and q = 0
      and rest = "[]"] h
  have 2: "insert_error [0] HADAMARD crosstalk_example =
       Returned (append_opcodes
         [\<lparr>op = NoiseTag Depolarizing, qubits = [0], parameters = [1 / 10], dagger = False,
           global_controller = []\<rparr>,
          \<lparr>op = NoiseTag BitFlip, qubits = [0], parameters = [1 / 5], dagger = False,
           global_controller = []\<rparr>,
          \<lparr>op = NoiseTag Depolarizing, qubits = [0, 1], parameters = [3 / 10], dagger = False,
           global_controller = []\<rparr>,
          \<lparr>op = NoiseTag PhaseFlip, qubits = [0, 1], parameters = [2 / 5], dagger = False,
           global_controller = []\<rparr>] crosstalk_example)"
    by (simp add: e noise_opcodes_def entry_def crosstalk_opcodes_def)
  from gate_specific_insert_error [where s = crosstalk_example and g = TOFFOLI
      and qs = "[0, 1, 2]"] h
  have 3: "insert_error [0, 1, 2] TOFFOLI crosstalk_example =
       Threw (RuntimeError (''[Fatal] Error type and gate qubit count ''
                @ ''is not correctly specified, which is not as expected.''))
         (append_opcodes
           [\<lparr>op = NoiseTag Depolarizing, qubits = [0, 1, 2], parameters = [1 / 10],
             dagger = False, global_controller = []\<rparr>] crosstalk_example)"
    by (simp add: e noise_opcodes_def)
  from h m 1 2 3 show ?thesis by simp
qed

text \<open>
  Claim C4 as written fails: \<^const>\<open>crosstalk_example\<close> has one \<open>gate_error2q\<close> key
  for Hadamard on qubit 0, and a Hadamard on qubit 0 gets two crosstalk opcodes on
  \<open>[0, 1]\<close>, one for each channel of the key's entry, not one for the key.
\<close>

theorem gate_specific_crosstalk_counterexample:
  "map fst (gate_error2q crosstalk_example) = [(HADAMARD, 0, 1)]
   \<and> opcodes (final (hadamard 0 [] False crosstalk_example)) =
      [gate_opcode HADAMARD [0] [] False [],
       \<lparr>op = NoiseTag Depolarizing, qubits = [0], parameters = [1 / 10], dagger = False,
        global_controller = []\<rparr>,
       \<lparr>op = NoiseTag BitFlip, qubits = [0], parameters = [1 / 5], dagger = False,
        global_controller = []\<rparr>,
       \<lparr>op = NoiseTag Depolarizing, qubits = [0, 1], parameters = [3 / 10], dagger = False,
        global_controller = []\<rparr>,
       \<lparr>op = NoiseTag PhaseFlip, qubits = [0, 1], parameters = [2 / 5], dagger = False,
        global_controller = []\<rparr>]"
  by (simp add: crosstalk_example_def fresh_simulator_def hadamard_def insert_error_def
        NoisySimulator_GateSpecificError_insert_error_def insert_global_error_def
        insert_gate_error1q_def insert_gate_error2q_def emplace_back_def)

section \<open>The replay switch\<close>

lemma dispatch_no_case:
  "op opc = GateTag IDENTITY \<or> op opc = GateTag U22 \<or> op opc = GateTag SWAP \<Longrightarrow>
   dispatch kern opc st = Inl (RuntimeError_opcode (op opc))"
  by (auto simp: dispatch_def)

lemma replay_append:
  "replay kern (pre @ post) st = bind_result (replay kern pre st) (replay kern post)"
proof (induction pre arbitrary: st)
  case Nil
  show ?case by simp
next
  case (Cons opc pre)
  show ?case by (cases "dispatch kern opc st") (simp_all add: Cons.IH)
qed

lemma replay_reaches_no_case:
  assumes "replay kern pre st = Inr st'"
    and "op opc = GateTag IDENTITY \<or> op opc = GateTag U22 \<or> op opc = GateTag SWAP"
  shows "replay kern (pre @ opc # post) st = Inl (RuntimeError_opcode (op opc))"
  using assms by (simp add: replay_append dispatch_no_case)

lemma replay_fails:
  assumes "op opc = GateTag IDENTITY \<or> op opc = GateTag U22 \<or> op opc = GateTag SWAP"
  shows "\<exists>e. replay kern (pre @ opc # post) st = Inl e"
proof (cases "replay kern pre st")
  case (Inl e)
  then show ?thesis by (simp add: replay_append)
next
  case (Inr st')
  from replay_reaches_no_case[OF Inr assms] show ?thesis by blast
qed

lemma execute_once_fails:
  assumes "op opc = GateTag IDENTITY \<or> op opc = GateTag U22 \<or> op opc = GateTag SWAP"
    and "opcodes s = pre @ opc # post"
  shows "\<exists>e. execute_once kern s = Inl e"
proof (cases "kern (Call_init_n_qubit (nqubit s)) (simulator s)")
  case (Inl e)
  then show ?thesis by (simp add: execute_once_def)
next
  case (Inr st)
  from replay_fails[OF assms(1), of kern pre post st] obtain e
    where "replay kern (opcodes s) st = Inl e" unfolding assms(2) by blast
  then show ?thesis using Inr by (simp add: execute_once_def)
qed

lemma record_call_extends: "\<exists>ns. opcodes (final (record_call c s)) = opcodes s @ ns"
proof (cases "recorded_opcode c")
  case None
  from record_call_unknown[OF None, of s] show ?thesis by auto
next
  case (Some opc)
  from record_call_known[OF Some, of s] show ?thesis by auto
qed

lemma record_calls_extends: "\<exists>ns. opcodes (record_calls cs s) = opcodes s @ ns"
proof (induction cs arbitrary: s)
  case Nil
  show ?case by simp
next
  case (Cons c cs)
  from record_call_extends[of c s] obtain a
    where a: "opcodes (final (record_call c s)) = opcodes s @ a" ..
  from Cons.IH[of "final (record_call c s)"] obtain b
    where "opcodes (record_calls cs (final (record_call c s))) = opcodes (final (record_call c s)) @ b" ..
  then show ?case by (simp add: a)
qed

lemma dispatch_recorded_gate:
  assumes "recorded_opcode c = Some opc"
    and "op opc \<noteq> GateTag IDENTITY" "op opc \<noteq> GateTag U22" "op opc \<noteq> GateTag SWAP"
  shows "\<exists>call. \<forall>kern st. dispatch kern opc st = kern call st \<or> dispatch kern opc st = Inl OutOfBounds"
proof (cases c)
  case (Mut_load_opcode opstr qs ps d ctl)
  with assms obtain g where g: "string_to_SupportOperationType opstr = Inr g"
    and opc: "opc = gate_opcode g qs ps d ctl"
    by (auto split: sum.splits)
  from assms(2-4) have ne: "g \<noteq> IDENTITY" "g \<noteq> U22" "g \<noteq> SWAP" by (simp_all add: opc)
  have "\<exists>call. \<forall>kern st. dispatch kern (gate_opcode g qs ps d ctl) st = kern call st
          \<or> dispatch kern (gate_opcode g qs ps d ctl) st = Inl OutOfBounds"
    using ne by (cases g) (auto simp: dispatch_def vec_at_def)
  then show ?thesis by (simp only: opc)
qed (use assms in \<open>auto simp: dispatch_def vec_at_def\<close>)


text \<open>
  Claim C10.  A recording call whose gate opcode carries the tag \<open>IDENTITY\<close>, \<open>U22\<close> or
  \<open>SWAP\<close> (the mutators \<^verbatim>\<open>id\<close>, \<^verbatim>\<open>u22\<close>, \<^verbatim>\<open>swap\<close>) leaves an opcode for which the
  replay switch has no case: the switch throws the runtime error of its default case
  on it, whatever the simulator does; after that call, and after any further recording
  calls, every \<^verbatim>\<open>execute_once\<close> throws, and when the replay gets as far as that opcode
  the exception is that runtime error.  For every other gate opcode a recording call
  can append, the switch has a case: it makes one call into the simulator (or reads
  past the end of a vector that \<^verbatim>\<open>load_opcode\<close> was given too short).
\<close>

theorem replay_has_no_case_for_identity_u22_swap:
  "(recorded_opcode c = Some opc
      \<and> (op opc = GateTag IDENTITY \<or> op opc = GateTag U22 \<or> op opc = GateTag SWAP) \<longrightarrow>
        (\<forall>(kern :: 'st kernel) st. dispatch kern opc st = Inl (RuntimeError_opcode (op opc)))
      \<and> (\<forall>(kern :: 'st kernel) cs.
            \<exists>e. execute_once kern (record_calls cs (final (record_call c s))) = Inl e)
      \<and> (\<forall>(kern :: 'st kernel) s2 pre post st0 st1.
            opcodes s2 = pre @ opc # post
            \<and> kern (Call_init_n_qubit (nqubit s2)) (simulator s2) = Inr st0
            \<and> replay kern pre st0 = Inr st1 \<longrightarrow>
            execute_once kern s2 = Inl (RuntimeError_opcode (op opc))))
   \<and> (recorded_opcode c = Some opc
      \<and> op opc \<noteq> GateTag IDENTITY \<and> op opc \<noteq> GateTag U22 \<and> op opc \<noteq> GateTag SWAP \<longrightarrow>
        (\<exists>call. \<forall>(kern :: 'st kernel) st. dispatch kern opc st = kern call st
                           \<or> dispatch kern opc st = Inl OutOfBounds))"
proof (intro conjI impI allI)
  fix kern :: "'st kernel" and st
  assume "recorded_opcode c = Some opc
      \<and> (op opc = GateTag IDENTITY \<or> op opc = GateTag U22 \<or> op opc = GateTag SWAP)"
  then show "dispatch kern opc st = Inl (RuntimeError_opcode (op opc))"
    by (simp add: dispatch_no_case)
next
  fix kern :: "'st kernel" and cs
  assume a: "recorded_opcode c = Some opc
      \<and> (op opc = GateTag IDENTITY \<or> op opc = GateTag U22 \<or> op opc = GateTag SWAP)"
  from a record_call_known[of c opc s] obtain ns
    where 1: "opcodes (final (record_call c s)) = opcodes s @ opc # ns" by auto
  from record_calls_extends[of cs "final (record_call c s)"] obtain ms
    where 2: "opcodes (record_calls cs (final (record_call c s))) = opcodes s @ opc # (ns @ ms)"
    by (auto simp: 1)
  from a have t: "op opc = GateTag IDENTITY \<or> op opc = GateTag U22 \<or> op opc = GateTag SWAP" ..
  from execute_once_fails[OF t 2]
  show "\<exists>e. execute_once kern (record_calls cs (final (record_call c s))) = Inl e" .
next
  fix kern :: "'st kernel" and s2 :: "'st NoisySimulator" and pre post st0 st1
  assume a: "recorded_opcode c = Some opc
      \<and> (op opc = GateTag IDENTITY \<or> op opc = GateTag U22 \<or> op opc = GateTag SWAP)"
    and b: "opcodes s2 = pre @ opc # post
            \<and> kern (Call_init_n_qubit (nqubit s2)) (simulator s2) = Inr st0
            \<and> replay kern pre st0 = Inr st1"
  from a have t: "op opc = GateTag IDENTITY \<or> op opc = GateTag U22 \<or> op opc = GateTag SWAP" ..
  from b have r: "replay kern pre st0 = Inr st1" by simp
  from replay_reaches_no_case[OF r t, of post] b
  show "execute_once kern s2 = Inl (RuntimeError_opcode (op opc))"
    by (simp add: execute_once_def)
next
  assume "recorded_opcode c = Some opc
      \<and> op opc \<noteq> GateTag IDENTITY \<and> op opc \<noteq> GateTag U22 \<and> op opc \<noteq> GateTag SWAP"
  then show "\<exists>call. \<forall>kern st. dispatch kern opc st = kern call st
                           \<or> dispatch kern opc st = Inl OutOfBounds"
    using dispatch_recorded_gate[of c opc] by blast
qed

theorem replay_has_no_case_for_identity_u22_swap_witness:
  "recorded_opcode (Mut_swap 0 1 [] False) = Some (gate_opcode SWAP [0, 1] [] False [])
   \<and> op (gate_opcode SWAP [0, 1] [] False []) = GateTag SWAP
   \<and> execute_once trace_kernel
        (record_calls [Mut_hadamard 0 [] False]
          (final (record_call (Mut_swap 0 1 [] False) (fresh_simulator Global 2 [] [] [])))) =
      Inl (RuntimeError_opcode (GateTag SWAP))
   \<and> recorded_opcode (Mut_cz 0 1 [] False) = Some (gate_opcode CZ [0, 1] [] False [])
   \<and> op (gate_opcode CZ [0, 1] [] False []) \<noteq> GateTag IDENTITY
   \<and> op (gate_opcode CZ [0, 1] [] False []) \<noteq> GateTag U22
   \<and> op (gate_opcode CZ [0, 1] [] False []) \<noteq> GateTag SWAP
   \<and> (\<exists>call. \<forall>kern :: (sim_call list) kernel. \<forall>st.
          dispatch kern (gate_opcode CZ [0, 1] [] False []) st = kern call st
          \<or> dispatch kern (gate_opcode CZ [0, 1] [] False []) st = Inl OutOfBounds)"
proof -
  let ?s = "fresh_simulator Global 2 [] [] [] :: (sim_call list) NoisySimulator"
  let ?s2 = "record_calls [Mut_hadamard 0 [] False] (final (record_call (Mut_swap 0 1 [] False) ?s))"
  have h: "recorded_opcode (Mut_swap 0 1 [] False) = Some (gate_opcode SWAP [0, 1] [] False [])
      \<and> (op (gate_opcode SWAP [0, 1] [] False []) = GateTag IDENTITY
          \<or> op (gate_opcode SWAP [0, 1] [] False []) = GateTag U22
          \<or> op (gate_opcode SWAP [0, 1] [] False []) = GateTag SWAP)"
    by simp
  have o: "opcodes ?s2 = [] @ gate_opcode SWAP [0, 1] [] False [] # [gate_opcode HADAMARD [0] [] False []]
            \<and> trace_kernel (Call_init_n_qubit (nqubit ?s2)) (simulator ?s2) = Inr [Call_init_n_qubit 2]
            \<and> replay trace_kernel [] [Call_init_n_qubit 2] = Inr [Call_init_n_qubit 2]"
    by (simp add: fresh_simulator_def swap_gate_def hadamard_def insert_error_def
          NoisySimulator_insert_error_def insert_global_error_def emplace_back_def trace_kernel_def)
  from replay_has_no_case_for_identity_u22_swap
         [where c = "Mut_swap 0 1 [] False" and opc = "gate_opcode SWAP [0, 1] [] False []"
            and s = ?s] h o
  have 1: "execute_once trace_kernel ?s2 = Inl (RuntimeError_opcode (GateTag SWAP))"
    by (metis OpcodeType.select_convs(1) gate_opcode.simps)
  have k: "recorded_opcode (Mut_cz 0 1 [] False) = Some (gate_opcode CZ [0, 1] [] False [])
      \<and> op (gate_opcode CZ [0, 1] [] False []) \<noteq> GateTag IDENTITY
      \<and> op (gate_opcode CZ [0, 1] [] False []) \<noteq> GateTag U22
      \<and> op (gate_opcode CZ [0, 1] [] False []) \<noteq> GateTag SWAP"
    by simp
  from replay_has_no_case_for_identity_u22_swap
         [where c = "Mut_cz 0 1 [] False" and opc = "gate_opcode CZ [0, 1] [] False []"
            and s = ?s] k
  have 2: "\<exists>call. \<forall>kern :: (sim_call list) kernel. \<forall>st.
          dispatch kern (gate_opcode CZ [0, 1] [] False []) st = kern call st
          \<or> dispatch kern (gate_opcode CZ [0, 1] [] False []) st = Inl OutOfBounds"
    by blast
  from h 1 k 2 show ?thesis by simp
qed

lemma dispatch_cnot:
  "dispatch kern (gate_opcode CNOT (q0 # q1 # qs) ps d c) st = kern (Call_cnot q0 q1 [] False) st"
  by (simp add: dispatch_def vec_at_def)

lemma dispatch_cz:
  "dispatch kern (gate_opcode CZ (q0 # q1 # qs) ps d c) st = kern (Call_cz q0 q1 c d) st"
  by (simp add: dispatch_def vec_at_def)

text \<open>
  Claim C5.  The case \<open>CNOT\<close> of the replay switch calls \<^verbatim>\<open>simulator.cnot\<close> with the
  two qubits only: the recorded controller set and dagger flag are dropped, and the
  defaults (no controller, no dagger) are used.  The case \<open>CZ\<close>, like every other gate
  case, passes both on.  Here a CNOT and a CZ are recorded with controller 2 and the
  dagger flag set, and replayed.
\<close>

theorem cnot_replay_drops_controller_and_dagger:
  "execute_once trace_kernel
     (final (cnot 0 1 [2] True (fresh_simulator Global 3 [] [] []))) =
   Inr ((final (cnot 0 1 [2] True (fresh_simulator Global 3 [] [] [])))
          \<lparr>simulator := [Call_init_n_qubit 3, Call_cnot 0 1 [] False]\<rparr>)
   \<and> execute_once trace_kernel
     (final (cz 0 1 [2] True (fresh_simulator Global 3 [] [] []))) =
   Inr ((final (cz 0 1 [2] True (fresh_simulator Global 3 [] [] [])))
          \<lparr>simulator := [Call_init_n_qubit 3, Call_cz 0 1 [2] True]\<rparr>)"
  by (simp add: execute_once_def cnot_def cz_def fresh_simulator_def insert_error_def
        NoisySimulator_insert_error_def insert_global_error_def emplace_back_def
        trace_kernel_def dispatch_def vec_at_def)

lemma depolarizing_at_boundary:
  "0 \<le> p \<Longrightarrow> depolarizing kern qn p p st = kern (Call_z qn [] False) st"
  by (simp add: depolarizing_def)

lemma depolarizing_below_boundary:
  "0 \<le> r \<Longrightarrow> r < p \<Longrightarrow>
   depolarizing kern qn p r st =
     (if r < p / 3 then kern (Call_x qn [] False) st
      else if r < p / 3 * 2 then kern (Call_y qn [] False) st
      else kern (Call_z qn [] False) st)"
  by (simp add: depolarizing_def)

text \<open>
  Claim C3.  \<^verbatim>\<open>depolarizing\<close> returns early only when \<open>r > p\<close>.  At the boundary
  \<open>r = p\<close> it goes on, fails both tests \<open>r < p / 3\<close> and \<open>r < p / 3 * 2\<close>, and applies
  \<open>Z\<close>: with \<open>p = 0\<close> and the draw \<open>r = 0\<close> the one call into the simulator is \<open>z(qn)\<close>.
\<close>

theorem depolarizing_applies_z_at_boundary:
  "depolarizing trace_kernel 0 0 0 [] = Inr [Call_z 0 [] False]"
  by (simp add: depolarizing_def trace_kernel_def)

section \<open>Construction and the noise description\<close>

lemma map_of_noise_assign:
  "map_of (noise_assign k v m) k' = (if k' = k then Some v else map_of m k')"
  by (induction m) auto

lemma load_noise_frame: "load_noise d s = s\<lparr>noise := noise (load_noise d s)\<rparr>"
  by (simp add: load_noise_def Let_def split: option.splits)

lemma load_noise_lookup:
  assumes "noise s = []"
  shows "map_of (noise (load_noise d s)) Depolarizing = d ''depolarizing''"
    and "map_of (noise (load_noise d s)) Damping = d ''damping''"
    and "map_of (noise (load_noise d s)) BitFlip = d ''bitflip''"
    and "map_of (noise (load_noise d s)) PhaseFlip = d ''phaseflip''"
  using assms
  by (simp_all add: load_noise_def Let_def map_of_noise_assign split: option.splits)

lemma load_noise_ignores:
  assumes "k \<notin> set noise_tokens"
  shows "load_noise (d(k := v)) s = load_noise d s"
proof -
  from assms have "(d(k := v)) ''depolarizing'' = d ''depolarizing''"
    "(d(k := v)) ''damping'' = d ''damping''"
    "(d(k := v)) ''bitflip'' = d ''bitflip''"
    "(d(k := v)) ''phaseflip'' = d ''phaseflip''"
    by (auto simp: noise_tokens_def)
  then show ?thesis unfolding load_noise_def by (simp only:)
qed

text \<open>The constructor builds a global noise map whose keys pass the range check.\<close>

lemma noise_assign_channel_keys:
  "channel_key (k, v) \<Longrightarrow> list_all channel_key m \<Longrightarrow> list_all channel_key (noise_assign k v m)"
  by (induction m) auto

lemma load_noise_channel_keys:
  "list_all channel_key (noise s) \<Longrightarrow> list_all channel_key (noise (load_noise d s))"
  by (simp add: load_noise_def Let_def noise_assign_channel_keys channel_key_def
        split: option.splits)

lemma constructed_noise_keys:
  "NoisySimulator_ctor sim n d m = Inr s \<Longrightarrow> list_all channel_key (noise s)"
proof -
  assume "NoisySimulator_ctor sim n d m = Inr s"
  then have s: "s = load_noise d
           \<lparr>noise = [], gate_dependent_noise = [], gate_error1q = [],
              gate_error2q = [], measurement_error_matrices = m,
              simulator = sim, nqubit = n, measure_qubits = [],
              measure_map = [], opcodes = [], policy = Global\<rparr>"
    by (simp add: NoisySimulator_ctor_def)
  show ?thesis unfolding s by (rule load_noise_channel_keys) simp
qed

text \<open>
  Claim C6, as the code has it.  The constructor never throws on its noise description:
  it looks up the four names \<open>depolarizing\<close>, \<open>damping\<close>, \<open>bitflip\<close>, \<open>phaseflip\<close> and
  records each one that is present with its probability; a key outside the five tokens
  is never read, so adding, changing or removing it changes nothing and raises nothing.
  The parser \<^verbatim>\<open>string_to_NoiseType\<close>, which the gate-dependent and gate-specific
  loaders apply to the names of their inner noise maps, accepts these four names and
  throws, for every string outside the five tokens, a runtime error whose message holds
  the string; the loop over an inner noise map stops with that error.
\<close>

theorem noise_description_tokens:
  "(\<exists>s. NoisySimulator_ctor sim n d m = Inr s
        \<and> map_of (noise s) Depolarizing = d ''depolarizing''
        \<and> map_of (noise s) Damping = d ''damping''
        \<and> map_of (noise s) BitFlip = d ''bitflip''
        \<and> map_of (noise s) PhaseFlip = d ''phaseflip'')
   \<and> (k \<notin> set noise_tokens \<longrightarrow>
        NoisySimulator_ctor sim n (d(k := v)) m = NoisySimulator_ctor sim n d m)
   \<and> string_to_NoiseType ''depolarizing'' = Inr Depolarizing
   \<and> string_to_NoiseType ''damping'' = Inr Damping
   \<and> string_to_NoiseType ''bitflip'' = Inr BitFlip
   \<and> string_to_NoiseType ''phaseflip'' = Inr PhaseFlip
   \<and> (k \<notin> set noise_tokens \<longrightarrow>
        string_to_NoiseType k =
          Inl (RuntimeError (''Failed to handle noise_str: '' @ k @ [CHR 0x0A] @ ''Please check.''))
        \<and> load_noise_probabilities ((k, pr) # rest) acc =
          Inl (RuntimeError (''Failed to handle noise_str: '' @ k @ [CHR 0x0A] @ ''Please check.'')))"
proof -
  have 1: "\<exists>s. NoisySimulator_ctor sim n d m = Inr s
        \<and> map_of (noise s) Depolarizing = d ''depolarizing''
        \<and> map_of (noise s) Damping = d ''damping''
        \<and> map_of (noise s) BitFlip = d ''bitflip''
        \<and> map_of (noise s) PhaseFlip = d ''phaseflip''"
    by (simp add: NoisySimulator_ctor_def load_noise_lookup)
  have 2: "k \<notin> set noise_tokens \<longrightarrow>
        NoisySimulator_ctor sim n (d(k := v)) m = NoisySimulator_ctor sim n d m"
    by (simp add: NoisySimulator_ctor_def load_noise_ignores)
  have 3: "string_to_NoiseType ''depolarizing'' = Inr Depolarizing
   \<and> string_to_NoiseType ''damping'' = Inr Damping
   \<and> string_to_NoiseType ''bitflip'' = Inr BitFlip
   \<and> string_to_NoiseType ''phaseflip'' = Inr PhaseFlip"
    by (simp add: string_to_NoiseType_def)
  have 4: "k \<notin> set noise_tokens \<longrightarrow>
        string_to_NoiseType k =
          Inl (RuntimeError (''Failed to handle noise_str: '' @ k @ [CHR 0x0A] @ ''Please check.''))
        \<and> load_noise_probabilities ((k, pr) # rest) acc =
          Inl (RuntimeError (''Failed to handle noise_str: '' @ k @ [CHR 0x0A] @ ''Please check.''))"
    by (simp add: string_to_NoiseType_def noise_tokens_def)
  from 1 2 3 4 show ?thesis by blast
qed

theorem noise_description_tokens_witness:
  "''foo'' \<notin> set noise_tokens
   \<and> NoisySimulator_ctor ([] :: sim_call list) 1 ([''bitflip'' \<mapsto> 1 / 4](''foo'' := Some (1 / 2))) [] =
      NoisySimulator_ctor [] 1 [''bitflip'' \<mapsto> 1 / 4] []
   \<and> NoisySimulator_ctor ([] :: sim_call list) 1 [''bitflip'' \<mapsto> 1 / 4] [] =
      Inr (fresh_simulator Global 1 [(BitFlip, 1 / 4)] [] [])
   \<and> string_to_NoiseType ''foo'' =
      Inl (RuntimeError (''Failed to handle noise_str: foo'' @ [CHR 0x0A] @ ''Please check.''))
   \<and> load_noise_probabilities [(''foo'', 1 / 2), (''bitflip'', 1 / 4)] [] =
      Inl (RuntimeError (''Failed to handle noise_str: foo'' @ [CHR 0x0A] @ ''Please check.''))"
proof -
  have h: "''foo'' \<notin> set noise_tokens" by (simp add: noise_tokens_def)
  have e: "NoisySimulator_ctor ([] :: sim_call list) 1 [''bitflip'' \<mapsto> 1 / 4] [] =
      Inr (fresh_simulator Global 1 [(BitFlip, 1 / 4)] [] [])"
    by (simp add: NoisySimulator_ctor_def load_noise_def fresh_simulator_def)
  from noise_description_tokens [where k = "''foo''" and sim = "[] :: sim_call list" and n = 1
      and d = "[''bitflip'' \<mapsto> 1 / 4]" and v = "Some (1 / 2)" and m = "[]"
      and pr = "1 / 2" and rest = "[(''bitflip'', 1 / 4)]" and acc = "[]"] h e
  show ?thesis by simp
qed

text \<open>
  Claim C6 as written fails: the constructor given a description with the one key
  \<open>foo\<close> returns a simulator, with no noise recorded, and throws nothing.
\<close>

theorem unknown_noise_key_counterexample:
  "NoisySimulator_ctor ([] :: sim_call list) 1 [''foo'' \<mapsto> 1 / 2] [] =
     Inr (fresh_simulator Global 1 [] [] [])"
  by (simp add: NoisySimulator_ctor_def load_noise_def fresh_simulator_def)

text \<open>
  Claim C8, as the code has it.  The constructor stores the qubit count and loads the
  noise; it does not compare the count with \<^const>\<open>max_qubit_num\<close>, and it returns a
  simulator for every \<open>n\<close>, above 30 as well as below.
\<close>

theorem constructor_accepts_every_qubit_count:
  "\<exists>s. NoisySimulator_ctor sim n d m = Inr s \<and> nqubit s = n \<and> simulator s = sim
       \<and> opcodes s = [] \<and> measurement_error_matrices s = m"
proof -
  let ?s0 = "\<lparr>noise = [], gate_dependent_noise = [], gate_error1q = [], gate_error2q = [],
        measurement_error_matrices = m, simulator = sim,
        nqubit = n, measure_qubits = [], measure_map = [], opcodes = [],
        policy = Global\<rparr>"
  have "NoisySimulator_ctor sim n d m = Inr (?s0\<lparr>noise := noise (load_noise d ?s0)\<rparr>)"
    unfolding NoisySimulator_ctor_def using load_noise_frame[of d ?s0] by simp
  then show ?thesis by simp
qed

text \<open>
  Claim C8 as written fails: 31 qubits are more than \<^const>\<open>max_qubit_num\<close>, and the
  constructor returns a simulator of 31 qubits.
\<close>

theorem constructor_31_qubits_counterexample:
  "max_qubit_num < 31
   \<and> NoisySimulator_ctor ([] :: sim_call list) 31 Map.empty [] =
       Inr (fresh_simulator Global 31 [] [] [])"
  by (simp add: max_qubit_num_def NoisySimulator_ctor_def load_noise_def fresh_simulator_def)

section \<open>The sampler\<close>

lemma sample_loop_upt:
  "sample_loop rnd abs_sqr st [k..<N] (remainder rnd (\<lambda>j. abs_sqr (st ! j)) r k) = Inr i \<longleftrightarrow>
     k \<le> i \<and> i < N
     \<and> flt (remainder rnd (\<lambda>j. abs_sqr (st ! j)) r i) (abs_sqr (st ! i))
     \<and> (\<forall>j. k \<le> j \<and> j < i \<longrightarrow>
            \<not> flt (remainder rnd (\<lambda>j. abs_sqr (st ! j)) r j) (abs_sqr (st ! j)))"
proof (induction "N - k" arbitrary: k)
  case 0
  then show ?case by auto
next
  case (Suc n)
  then have kN: "k < N" and n: "n = N - Suc k" by simp_all
  let ?a = "\<lambda>j. abs_sqr (st ! j)"
  let ?rem = "remainder rnd ?a r"
  have unfold: "sample_loop rnd abs_sqr st [k..<N] (?rem k) =
      (if flt (?rem k) (?a k) then Inr k
       else sample_loop rnd abs_sqr st [Suc k..<N] (?rem (Suc k)))"
    using kN by (simp add: upt_conv_Cons)
  show ?case
  proof (cases "flt (?rem k) (?a k)")
    case True
    have "(k \<le> i \<and> i < N \<and> flt (?rem i) (?a i)
        \<and> (\<forall>j. k \<le> j \<and> j < i \<longrightarrow> \<not> flt (?rem j) (?a j))) \<longleftrightarrow> i = k"
    proof
      assume h: "k \<le> i \<and> i < N \<and> flt (?rem i) (?a i)
        \<and> (\<forall>j. k \<le> j \<and> j < i \<longrightarrow> \<not> flt (?rem j) (?a j))"
      show "i = k"
      proof (rule ccontr)
        assume "i \<noteq> k"
        with h have "k < i" by simp
        with h have "\<not> flt (?rem k) (?a k)" by blast
        with True show False by simp
      qed
    next
      assume "i = k"
      with True kN show "k \<le> i \<and> i < N \<and> flt (?rem i) (?a i)
        \<and> (\<forall>j. k \<le> j \<and> j < i \<longrightarrow> \<not> flt (?rem j) (?a j))" by auto
    qed
    with True unfold show ?thesis by auto
  next
    case False
    have "(k \<le> i \<and> i < N \<and> flt (?rem i) (?a i)
        \<and> (\<forall>j. k \<le> j \<and> j < i \<longrightarrow> \<not> flt (?rem j) (?a j))) \<longleftrightarrow>
        (Suc k \<le> i \<and> i < N \<and> flt (?rem i) (?a i)
        \<and> (\<forall>j. Suc k \<le> j \<and> j < i \<longrightarrow> \<not> flt (?rem j) (?a j)))"
      (is "?L \<longleftrightarrow> ?R")
    proof
      assume L: ?L
      have "i \<noteq> k" using L False by auto
      with L show ?R by auto
    next
      assume R: ?R
      have "\<not> flt (?rem j) (?a j)" if "k \<le> j \<and> j < i" for j
      proof (cases "j = k")
        case True
        with False show ?thesis by simp
      next
        case False
        with that R show ?thesis by simp
      qed
      with R show ?L by auto
    qed
    with False unfold Suc.hyps(1)[OF n] show ?thesis by simp
  qed
qed

lemma sample_loop_error:
  "sample_loop rnd abs_sqr st xs r = Inl e \<Longrightarrow>
   e = RuntimeError ''NoisySimulator::get_measure() internal fatal error!''"
  by (induction xs arbitrary: r) (auto split: if_splits)

text \<open>With the rounding that changes nothing, the remainder is the draw minus the sum.\<close>

lemma remainder_exact:
  "remainder exact (\<lambda>j. Fin (b j)) (Fin x) i = Fin (x - (\<Sum>k<i. b k))"
  by (induction i) (simp_all add: fsub_def exact_def)

text \<open>
  Claim C2, as the code has it.  With the draw \<open>r\<close>, the sampler walks
  \<open>i = 0, \<dots>, 2\<^sup>n - 1\<close>, subtracting \<open>|\<psi>[i]|\<^sup>2\<close> from \<open>r\<close>, and returns the first \<open>i\<close> at
  which the remainder it has arrived with is strictly less than \<open>|\<psi>[i]|\<^sup>2\<close>, so that
  the subtraction would make it negative; a remainder equal to \<open>|\<psi>[i]|\<^sup>2\<close>, which the
  subtraction makes zero, does not select \<open>i\<close>.  It throws its runtime error exactly when
  no index is selected.
\<close>

theorem sampler_returns_first_index_below:
  assumes "length (state (simulator s)) = pow2 (total_qubit (simulator s))"
  shows "(get_measure_no_readout_error rnd abs_sqr r s = Inr i \<longleftrightarrow>
            i < pow2 (total_qubit (simulator s))
            \<and> flt (remainder rnd (\<lambda>j. abs_sqr (state (simulator s) ! j)) r i)
                  (abs_sqr (state (simulator s) ! i))
            \<and> (\<forall>j<i. \<not> flt (remainder rnd (\<lambda>j. abs_sqr (state (simulator s) ! j)) r j)
                            (abs_sqr (state (simulator s) ! j))))
       \<and> (get_measure_no_readout_error rnd abs_sqr r s = Inl e \<longleftrightarrow>
            e = RuntimeError ''NoisySimulator::get_measure() internal fatal error!''
            \<and> (\<forall>j<pow2 (total_qubit (simulator s)).
                  \<not> flt (remainder rnd (\<lambda>j. abs_sqr (state (simulator s) ! j)) r j)
                         (abs_sqr (state (simulator s) ! j))))"
proof -
  let ?N = "pow2 (total_qubit (simulator s))"
  let ?a = "\<lambda>j. abs_sqr (state (simulator s) ! j)"
  let ?rem = "remainder rnd ?a r"
  have sel: "get_measure_no_readout_error rnd abs_sqr r s = Inr i \<longleftrightarrow>
      i < ?N \<and> flt (?rem i) (?a i) \<and> (\<forall>j<i. \<not> flt (?rem j) (?a j))" for i
    unfolding get_measure_no_readout_error_def
    using sample_loop_upt[of rnd abs_sqr "state (simulator s)" 0 ?N r i] by simp
  have err: "get_measure_no_readout_error rnd abs_sqr r s = Inl e \<longleftrightarrow>
      e = RuntimeError ''NoisySimulator::get_measure() internal fatal error!''
      \<and> (\<forall>j<?N. \<not> flt (?rem j) (?a j))"
  proof
    assume l: "get_measure_no_readout_error rnd abs_sqr r s = Inl e"
    then have e: "e = RuntimeError ''NoisySimulator::get_measure() internal fatal error!''"
      unfolding get_measure_no_readout_error_def by (rule sample_loop_error)
    have "\<not> flt (?rem j) (?a j)" if "j < ?N" for j
      using that
    proof (induction j rule: less_induct)
      case (less j)
      show ?case
      proof
        assume "flt (?rem j) (?a j)"
        with less have "get_measure_no_readout_error rnd abs_sqr r s = Inr j"
          by (simp add: sel)
        with l show False by simp
      qed
    qed
    with e show "e = RuntimeError ''NoisySimulator::get_measure() internal fatal error!''
      \<and> (\<forall>j<?N. \<not> flt (?rem j) (?a j))" by blast
  next
    assume r: "e = RuntimeError ''NoisySimulator::get_measure() internal fatal error!''
      \<and> (\<forall>j<?N. \<not> flt (?rem j) (?a j))"
    show "get_measure_no_readout_error rnd abs_sqr r s = Inl e"
    proof (cases "get_measure_no_readout_error rnd abs_sqr r s")
      case (Inl e')
      then have "e' = RuntimeError ''NoisySimulator::get_measure() internal fatal error!''"
        unfolding get_measure_no_readout_error_def by (rule sample_loop_error)
      with Inl r show ?thesis by simp
    next
      case (Inr i')
      then have "i' < ?N \<and> flt (?rem i') (?a i')" by (simp add: sel)
      with r show ?thesis by blast
    qed
  qed
  from sel[of i] err show ?thesis by blast
qed

theorem sampler_returns_first_index_below_witness:
  "length (state (simulator boundary_state_example)) =
     pow2 (total_qubit (simulator boundary_state_example))
   \<and> get_measure_no_readout_error exact (abs_sqr_rounded exact) (Fin (1 / 2))
       boundary_state_example = Inr 1
   \<and> (1 :: nat) < pow2 (total_qubit (simulator boundary_state_example))
   \<and> flt (remainder exact
            (\<lambda>j. abs_sqr_rounded exact (state (simulator boundary_state_example) ! j))
            (Fin (1 / 2)) 1)
         (abs_sqr_rounded exact (state (simulator boundary_state_example) ! 1))"
proof -
  have l: "length (state (simulator boundary_state_example)) =
      pow2 (total_qubit (simulator boundary_state_example))"
    by (simp add: boundary_state_example_def pow2_def)
  have v: "get_measure_no_readout_error exact (abs_sqr_rounded exact) (Fin (1 / 2))
       boundary_state_example = Inr 1"
    by (simp add: get_measure_no_readout_error_def boundary_state_example_def pow2_def
          abs_sqr_rounded_def exact_def fsub_def upt_conv_Cons)
  from sampler_returns_first_index_below [OF l, of exact "abs_sqr_rounded exact" "Fin (1 / 2)" 1] v
  have "(1 :: nat) < pow2 (total_qubit (simulator boundary_state_example))
   \<and> flt (remainder exact
            (\<lambda>j. abs_sqr_rounded exact (state (simulator boundary_state_example) ! j))
            (Fin (1 / 2)) 1)
         (abs_sqr_rounded exact (state (simulator boundary_state_example) ! 1))"
    by blast
  with l v show ?thesis by blast
qed

text \<open>
  Claim C2 as written fails: on the state \<open>(0, 1)\<close> with the draw \<open>r = 0\<close> the remainder
  after the subtraction at index 0 is \<open>0\<close>, which is non-positive, and the sampler goes
  on and returns index 1.  Every number of this run is a double.
\<close>

theorem sampler_zero_remainder_counterexample:
  "get_measure_no_readout_error exact (abs_sqr_rounded exact) (Fin 0) boundary_state_example
     = Inr 1
   \<and> fsub exact (Fin 0) (abs_sqr_rounded exact (state (simulator boundary_state_example) ! 0))
     = Fin 0"
  by (simp add: get_measure_no_readout_error_def boundary_state_example_def pow2_def
        abs_sqr_rounded_def exact_def fsub_def upt_conv_Cons)

section \<open>Amplitude damping\<close>

subsection \<open>The bit of a qubit in a basis index\<close>

lemma qubit_is_one_iff: "qubit_is_one i qn \<longleftrightarrow> odd (i div 2 ^ qn)"
  by (simp add: qubit_is_one_def and_one_eq drop_bit_eq_div odd_iff_mod_2_eq_one)

lemma qubit_is_one_ge: "qubit_is_one i qn \<Longrightarrow> pow2 qn \<le> i"
proof -
  assume "qubit_is_one i qn"
  then have "odd (i div 2 ^ qn)" by (simp add: qubit_is_one_iff)
  then have "i div 2 ^ qn \<noteq> 0" by (rule contrapos_nn) simp
  then have "\<not> i < 2 ^ qn" by (rule contrapos_nn) simp
  then show ?thesis by (simp add: pow2_def)
qed

lemma qubit_is_one_add: "qubit_is_one (j + pow2 qn) qn \<longleftrightarrow> \<not> qubit_is_one j qn"
  by (simp add: qubit_is_one_iff pow2_def)

lemma qubit_is_one_diff: "qubit_is_one i qn \<Longrightarrow> \<not> qubit_is_one (i - pow2 qn) qn"
proof -
  assume a: "qubit_is_one i qn"
  then have "i = (i - pow2 qn) + pow2 qn" using qubit_is_one_ge[OF a] by simp
  with a qubit_is_one_add[of "i - pow2 qn" qn] show ?thesis by simp
qed

lemma partner_in_range:
  assumes "\<not> qubit_is_one j qn" and "j < pow2 n" and "qn < n"
  shows "j + pow2 qn < pow2 n"
proof -
  have n: "(2::nat) ^ n = 2 ^ (n - qn) * 2 ^ qn"
    using assms(3) by (simp flip: power_add)
  have d: "j div 2 ^ qn < 2 ^ (n - qn)"
    using assms(2) by (simp add: pow2_def n div_less_iff_less_mult)
  have e: "even (j div 2 ^ qn)" using assms(1) by (simp add: qubit_is_one_iff)
  have "even ((2::nat) ^ (n - qn))" using assms(3) by simp
  with d e have "Suc (j div 2 ^ qn) < 2 ^ (n - qn)"
    by (metis Suc_lessI even_Suc)
  then have x: "(j + 2 ^ qn) div 2 ^ qn < 2 ^ (n - qn)" by simp
  have "j + 2 ^ qn < 2 ^ (n - qn) * 2 ^ qn"
    by (rule iffD1[OF div_less_iff_less_mult, OF _ x]) simp
  then show ?thesis by (simp add: pow2_def n)
qed

subsection \<open>The loops\<close>

lemma length_fold_update:
  "length (fold (\<lambda>i st. if c i then st[i := g i st] else st) xs st) = length st"
  by (induction xs arbitrary: st) simp_all

lemma fold_pointwise:
  assumes "j < length st"
  shows "fold (\<lambda>i st. if c i then st[i := g i (st ! i)] else st) [a..<b] st ! j =
         (if a \<le> j \<and> j < b \<and> c j then g j (st ! j) else st ! j)"
proof (induction b)
  case 0
  show ?case by simp
next
  case (Suc b)
  let ?f = "\<lambda>i st. if c i then st[i := g i (st ! i)] else st"
  let ?S = "fold ?f [a..<b] st"
  show ?case
  proof (cases "a \<le> b")
    case False
    then show ?thesis by auto
  next
    case True
    have len: "length ?S = length st"
      using length_fold_update[of c "\<lambda>i st. g i (st ! i)" "[a..<b]" st] by simp
    have step: "fold ?f [a..<Suc b] st = ?f b ?S" using True by simp
    show ?thesis
    proof (cases "j = b")
      case True
      with Suc assms len \<open>a \<le> b\<close> show ?thesis unfolding step by simp
    next
      case False
      with Suc assms len \<open>a \<le> b\<close> show ?thesis unfolding step by auto
    qed
  qed
qed

lemma fold_decay:
  assumes len: "length st = pow2 n" and q: "qn < n" and j: "j < pow2 n" and k: "k \<le> pow2 n"
  shows "fold (damping_decay_step qn) [0..<k] st ! j =
         (if qubit_is_one j qn then (if j < k then (Fin 0, Fin 0) else st ! j)
          else (if j + pow2 qn < k then st ! (j + pow2 qn) else st ! j))
         \<and> length (fold (damping_decay_step qn) [0..<k] st) = pow2 n"
  using k j
proof (induction k arbitrary: j)
  case 0
  show ?case by (simp add: len)
next
  case (Suc k)
  let ?S = "fold (damping_decay_step qn) [0..<k] st"
  from Suc.prems have k: "k \<le> pow2 n" "k < pow2 n" by simp_all
  note IH = Suc.IH[OF k(1)]
  have lenS: "length ?S = pow2 n" using IH[OF Suc.prems(2)] by simp
  have step: "fold (damping_decay_step qn) [0..<Suc k] st = damping_decay_step qn k ?S"
    by simp
  show ?case
  proof (cases "qubit_is_one k qn")
    case False
    then have same: "damping_decay_step qn k ?S = ?S" by (simp add: damping_decay_step_def)
    have "j \<noteq> k" if "qubit_is_one j qn" using that False by auto
    moreover have "j + pow2 qn \<noteq> k" if "\<not> qubit_is_one j qn"
      using that False qubit_is_one_add[of j qn] by auto
    ultimately show ?thesis
      unfolding step same using IH[OF Suc.prems(2)] by (auto simp: less_Suc_eq)
  next
    case True
    have ge: "pow2 qn \<le> k" using True by (rule qubit_is_one_ge)
    have Sk: "?S ! k = st ! k" using IH[OF k(2)] True by simp
    have upd: "damping_decay_step qn k ?S = (?S[k - pow2 qn := st ! k])[k := (Fin 0, Fin 0)]"
      using True by (simp add: damping_decay_step_def Sk)
    have pos: "0 < pow2 qn" by (simp add: pow2_def)
    consider (self) "j = k" | (partner) "j = k - pow2 qn" | (other) "j \<noteq> k" "j \<noteq> k - pow2 qn"
      by blast
    then show ?thesis
    proof cases
      case self
      then show ?thesis unfolding step upd using True lenS k by simp
    next
      case partner
      then have nb: "\<not> qubit_is_one j qn" using qubit_is_one_diff[OF True] by simp
      have jk: "j + pow2 qn = k" using partner ge by simp
      have "j \<noteq> k" using jk pos by simp
      then show ?thesis unfolding step upd using nb jk lenS Suc.prems(2) partner by simp
    next
      case other
      have a: "j + pow2 qn \<noteq> k" using other(2) by auto
      show ?thesis unfolding step upd using other a IH[OF Suc.prems(2)] lenS
        by (auto simp: less_Suc_eq)
    qed
  qed
qed




subsection \<open>The accumulated probabilities\<close>

lemma fold_damping_prob_step:
  "fold (damping_prob_step rnd abs_sqr st qn E0 E1) xs (a0, a1) =
     (fold (\<lambda>x acc. fadd rnd acc x)
        (map (\<lambda>i. fadd rnd (abs_sqr (cmul rnd (st ! i) E0)) (abs_sqr (st ! (i - pow2 qn))))
           (filter (\<lambda>i. qubit_is_one i qn) xs)) a0,
      fold (\<lambda>x acc. fadd rnd acc x)
        (map (\<lambda>i. abs_sqr (cmul rnd (st ! i) E1)) (filter (\<lambda>i. qubit_is_one i qn) xs)) a1)"
  by (induction xs arbitrary: a0 a1) (simp_all add: damping_prob_step_def)

lemma damping_probabilities:
  "fold (damping_prob_step rnd abs_sqr (state s) qn (fsqrt rnd (fsub rnd (Fin 1) p)) (fsqrt rnd p))
     [0..<pow2 (total_qubit s)] (Fin 0, Fin 0) =
   (no_decay_probability rnd abs_sqr s qn p, decay_probability rnd abs_sqr s qn p)"
  by (simp add: fold_damping_prob_step no_decay_probability_def decay_probability_def fsum_def)

subsection \<open>Renormalization\<close>

lemma normalize_state_vector_eq:
  assumes len: "length (state s) = pow2 (total_qubit s)"
    and amp: "\<And>j. j < pow2 (total_qubit s) \<Longrightarrow> state s ! j = a j"
  shows "normalize_state_vector rnd abs_sqr s =
     s\<lparr>state := normalized rnd abs_sqr (pow2 (total_qubit s)) a\<rparr>"
proof -
  let ?N = "pow2 (total_qubit s)"
  have m: "map (\<lambda>i. abs_sqr (state s ! i)) [0..<?N] = map (\<lambda>j. abs_sqr (a j)) [0..<?N]"
    by (rule map_cong) (simp_all add: amp)
  have "fold (\<lambda>i norm. fadd rnd norm (abs_sqr (state s ! i))) [0..<?N] (Fin 0) =
        fold (\<lambda>x acc. fadd rnd acc x) (map (\<lambda>i. abs_sqr (state s ! i)) [0..<?N]) (Fin 0)"
    by (simp add: fold_map comp_def)
  then have T: "fold (\<lambda>i norm. fadd rnd norm (abs_sqr (state s ! i))) [0..<?N] (Fin 0) =
        fsum rnd (map (\<lambda>j. abs_sqr (a j)) [0..<?N])"
    unfolding fsum_def m .
  have div: "fold (\<lambda>i st. st[i := cdiv rnd (st ! i) c]) [0..<?N] (state s) =
      map (\<lambda>i. cdiv rnd (a i) c) [0..<?N]" for c
  proof (rule nth_equalityI)
    show "length (fold (\<lambda>i st. st[i := cdiv rnd (st ! i) c]) [0..<?N] (state s)) =
          length (map (\<lambda>i. cdiv rnd (a i) c) [0..<?N])"
      using length_fold_update[where c = "\<lambda>_. True" and g = "\<lambda>i st. cdiv rnd (st ! i) c"
          and xs = "[0..<?N]" and st = "state s"] len by simp
  next
    fix j assume "j < length (fold (\<lambda>i st. st[i := cdiv rnd (st ! i) c]) [0..<?N] (state s))"
    then have j: "j < ?N"
      using length_fold_update[where c = "\<lambda>_. True" and g = "\<lambda>i st. cdiv rnd (st ! i) c"
          and xs = "[0..<?N]" and st = "state s"] len by simp
    then have "j < length (state s)" by (simp add: len)
    from fold_pointwise[OF this, where c = "\<lambda>_. True" and g = "\<lambda>i x. cdiv rnd x c"
        and a = 0 and b = ?N] j
    show "fold (\<lambda>i st. st[i := cdiv rnd (st ! i) c]) [0..<?N] (state s) ! j =
          map (\<lambda>i. cdiv rnd (a i) c) [0..<?N] ! j"
      by (simp add: amp)
  qed
  show ?thesis
    unfolding normalize_state_vector_def T Let_def div normalized_def by simp
qed

subsection \<open>The two branches\<close>

lemma decay_branch:
  assumes "length (state s) = pow2 (total_qubit s)" and "qn < total_qubit s"
    and "j < pow2 (total_qubit s)"
  shows "fold (damping_decay_step qn) [0..<pow2 (total_qubit s)] (state s) ! j = decay_amplitude s qn j"
    and "length (fold (damping_decay_step qn) [0..<pow2 (total_qubit s)] (state s)) = pow2 (total_qubit s)"
  using fold_decay[OF assms(1,2,3) order_refl] assms(3) partner_in_range[OF _ assms(3,2)]
  by (auto simp: decay_amplitude_def)

lemma no_decay_branch:
  assumes "length (state s) = pow2 (total_qubit s)" and "j < pow2 (total_qubit s)"
  shows "fold (damping_scale_step rnd qn (fsqrt rnd (fsub rnd (Fin 1) p)))
           [0..<pow2 (total_qubit s)] (state s) ! j = no_decay_amplitude rnd s qn p j"
    and "length (fold (damping_scale_step rnd qn (fsqrt rnd (fsub rnd (Fin 1) p)))
           [0..<pow2 (total_qubit s)] (state s)) = pow2 (total_qubit s)"
proof -
  have f: "damping_scale_step rnd qn E0 =
      (\<lambda>i st. if qubit_is_one i qn then st[i := cmul rnd (st ! i) E0] else st)" for E0
    by (intro ext) (simp add: damping_scale_step_def)
  from assms have j: "j < length (state s)" by simp
  show "fold (damping_scale_step rnd qn (fsqrt rnd (fsub rnd (Fin 1) p)))
           [0..<pow2 (total_qubit s)] (state s) ! j = no_decay_amplitude rnd s qn p j"
    unfolding f
    using fold_pointwise[OF j, where c = "\<lambda>i. qubit_is_one i qn"
        and g = "\<lambda>i x. cmul rnd x (fsqrt rnd (fsub rnd (Fin 1) p))" and a = 0
        and b = "pow2 (total_qubit s)"] assms(2)
    by (simp add: no_decay_amplitude_def)
  show "length (fold (damping_scale_step rnd qn (fsqrt rnd (fsub rnd (Fin 1) p)))
           [0..<pow2 (total_qubit s)] (state s)) = pow2 (total_qubit s)"
    unfolding f
    using length_fold_update[where c = "\<lambda>i. qubit_is_one i qn"
        and g = "\<lambda>i st. cmul rnd (st ! i) (fsqrt rnd (fsub rnd (Fin 1) p))"
        and xs = "[0..<pow2 (total_qubit s)]" and st = "state s"] assms(1) by simp
qed

text \<open>
  Claim C1, as the code has it.  For a state vector of \<open>2\<^sup>n\<close> amplitudes and a qubit
  \<open>qn < n\<close>, the first loop of \<^verbatim>\<open>damping\<close> accumulates, over the indices \<open>i\<close> with bit \<open>qn\<close>
  set, the decay probability \<open>p1\<close> as the sum of \<open>|\<surd>p \<cdot> \<psi>[i]|\<^sup>2\<close> and the no-decay
  probability \<open>p0\<close> as the sum of \<open>|\<surd>(1 - p) \<cdot> \<psi>[i]|\<^sup>2 + |\<psi>[i - 2\<^sup>q\<^sup>n]|\<^sup>2\<close>; \<open>p0\<close> is not
  computed as \<open>1 - p1\<close>.  The runtime error is thrown if and only if
  \<open>|p0 + p1 - 1| > 10\<^sup>-\<^sup>1\<^sup>0\<close>.  Otherwise, if the draw \<open>r\<close> is below \<open>p1\<close> every pair gets
  \<open>\<psi>[i0] \<leftarrow> \<psi>[i1]\<close>, \<open>\<psi>[i1] \<leftarrow> 0\<close>, else every \<open>\<psi>[i1]\<close> is scaled by \<open>\<surd>(1 - p)\<close>; in both
  branches every amplitude of the new vector is then divided by the square root of the
  sum of its squared magnitudes, and the function returns.
\<close>

theorem damping_probabilities_and_branches:
  assumes "length (state s) = pow2 (total_qubit s)" and "qn < total_qubit s"
  shows "fold (damping_prob_step rnd abs_sqr (state s) qn
                 (fsqrt rnd (fsub rnd (Fin 1) p)) (fsqrt rnd p))
           [0..<pow2 (total_qubit s)] (Fin 0, Fin 0) =
         (no_decay_probability rnd abs_sqr s qn p, decay_probability rnd abs_sqr s qn p)
       \<and> damping rnd abs_sqr qn p r s =
          (if fgt (fabs (fsub rnd (fadd rnd (no_decay_probability rnd abs_sqr s qn p)
                                         (decay_probability rnd abs_sqr s qn p)) (Fin 1)))
                  (rnd (1 / 10 ^ 10))
           then Inl (RuntimeError
                  ''Error: Probabilities after applying Kraus operators do not sum up to 1.'')
           else Inr (s\<lparr>state := normalized rnd abs_sqr (pow2 (total_qubit s))
                        (if flt r (decay_probability rnd abs_sqr s qn p)
                         then decay_amplitude s qn
                         else no_decay_amplitude rnd s qn p)\<rparr>))"
proof -
  let ?N = "pow2 (total_qubit s)"
  let ?E0 = "fsqrt rnd (fsub rnd (Fin 1) p)"
  note P = damping_probabilities[of rnd abs_sqr s qn p]
  let ?sd = "s\<lparr>state := fold (damping_decay_step qn) [0..<?N] (state s)\<rparr>"
  let ?sn = "s\<lparr>state := fold (damping_scale_step rnd qn ?E0) [0..<?N] (state s)\<rparr>"
  have pos: "0 < ?N" by (simp add: pow2_def)
  have D: "normalize_state_vector rnd abs_sqr ?sd =
      s\<lparr>state := normalized rnd abs_sqr ?N (decay_amplitude s qn)\<rparr>"
  proof -
    have 1: "length (state ?sd) = pow2 (total_qubit ?sd)"
      using decay_branch(2)[OF assms(1,2) pos] by simp
    have 2: "state ?sd ! j = decay_amplitude s qn j" if "j < pow2 (total_qubit ?sd)" for j
      using that decay_branch(1)[OF assms(1,2), of j] by simp
    from normalize_state_vector_eq[OF 1 2] show ?thesis by simp
  qed
  have E: "normalize_state_vector rnd abs_sqr ?sn =
      s\<lparr>state := normalized rnd abs_sqr ?N (no_decay_amplitude rnd s qn p)\<rparr>"
  proof -
    have 1: "length (state ?sn) = pow2 (total_qubit ?sn)"
      using no_decay_branch(2)[OF assms(1) pos] by simp
    have 2: "state ?sn ! j = no_decay_amplitude rnd s qn p j" if "j < pow2 (total_qubit ?sn)" for j
      using that no_decay_branch(1)[OF assms(1), of j] by simp
    from normalize_state_vector_eq[OF 1 2] show ?thesis by simp
  qed
  have R: "damping rnd abs_sqr qn p r s =
          (if fgt (fabs (fsub rnd (fadd rnd (no_decay_probability rnd abs_sqr s qn p)
                                         (decay_probability rnd abs_sqr s qn p)) (Fin 1)))
                  (rnd (1 / 10 ^ 10))
           then Inl (RuntimeError
                  ''Error: Probabilities after applying Kraus operators do not sum up to 1.'')
           else Inr (s\<lparr>state := normalized rnd abs_sqr (pow2 (total_qubit s))
                        (if flt r (decay_probability rnd abs_sqr s qn p)
                         then decay_amplitude s qn
                         else no_decay_amplitude rnd s qn p)\<rparr>))"
    unfolding damping_def Let_def P prod.case by (simp add: D E)
  from P R show ?thesis by blast
qed

theorem damping_probabilities_and_branches_witness:
  "length (state excited_qubit) = pow2 (total_qubit excited_qubit)
   \<and> 0 < total_qubit excited_qubit
   \<and> damping exact (abs_sqr_rounded exact) 0 (Fin 1) (Fin (1 / 2)) excited_qubit =
       Inr \<lparr>total_qubit = 1, state = [(Fin 1, Fin 0), (Fin 0, Fin 0)]\<rparr>
   \<and> decay_probability exact (abs_sqr_rounded exact) excited_qubit 0 (Fin 1) = Fin 1
   \<and> no_decay_probability exact (abs_sqr_rounded exact) excited_qubit 0 (Fin 1) = Fin 0"
proof -
  have l: "length (state excited_qubit) = pow2 (total_qubit excited_qubit)"
    by (simp add: excited_qubit_def pow2_def)
  have q: "0 < total_qubit excited_qubit" by (simp add: excited_qubit_def)
  have u: "[0..<2] = [0, 1]" by (simp add: upt_conv_Cons)
  have b: "\<not> qubit_is_one 0 0" "qubit_is_one 1 0" "qubit_is_one (Suc 0) 0"
    by (simp_all add: qubit_is_one_def)
  have p1: "decay_probability exact (abs_sqr_rounded exact) excited_qubit 0 (Fin 1) = Fin 1"
    by (simp add: decay_probability_def excited_qubit_def pow2_def u b fsum_def cmul_def
          abs_sqr_rounded_def exact_def)
  have p0: "no_decay_probability exact (abs_sqr_rounded exact) excited_qubit 0 (Fin 1) = Fin 0"
    by (simp add: no_decay_probability_def excited_qubit_def pow2_def u b fsum_def cmul_def
          abs_sqr_rounded_def exact_def fsub_def)
  have n: "normalized exact (abs_sqr_rounded exact) (pow2 (total_qubit excited_qubit))
             (decay_amplitude excited_qubit 0) = [(Fin 1, Fin 0), (Fin 0, Fin 0)]"
    by (simp add: normalized_def decay_amplitude_def excited_qubit_def pow2_def u b fsum_def
          cdiv_def abs_sqr_rounded_def exact_def)
  from damping_probabilities_and_branches [OF l q, of exact "abs_sqr_rounded exact" "Fin 1" "Fin (1 / 2)"]
  have "damping exact (abs_sqr_rounded exact) 0 (Fin 1) (Fin (1 / 2)) excited_qubit =
       Inr \<lparr>total_qubit = 1, state = [(Fin 1, Fin 0), (Fin 0, Fin 0)]\<rparr>"
    by (simp add: p0 p1 n fsub_def fgt_def exact_def) (simp add: excited_qubit_def)
  with l q p0 p1 show ?thesis by blast
qed

text \<open>
  Claim C1 as written fails: on the vector \<open>(1, 2\<^sup>-\<^sup>1\<^sup>6)\<close> with \<open>p = 0\<close> the loop computes
  \<open>p1 = 0\<close> and \<open>p0 = 1 + 2\<^sup>-\<^sup>3\<^sup>2\<close>, not \<open>p0 = 1 - p1\<close>, and \<^verbatim>\<open>damping\<close> throws, although
  with \<open>p0 = 1 - p1\<close> the test \<open>|p0 + p1 - 1| > 10\<^sup>-\<^sup>1\<^sup>0\<close> could never succeed.  Every
  number that this run computes is a double, and \<open>2\<^sup>-\<^sup>3\<^sup>2\<close> is more than twice the
  threshold, however that is rounded.
\<close>

theorem damping_no_decay_probability_counterexample:
  "fold (damping_prob_step exact (abs_sqr_rounded exact) (state near_normalized_qubit) 0
           (fsqrt exact (fsub exact (Fin 1) (Fin 0))) (fsqrt exact (Fin 0)))
     [0..<pow2 (total_qubit near_normalized_qubit)] (Fin 0, Fin 0) =
     (Fin (1 + 1 / 2 ^ 32), Fin 0)
   \<and> damping exact (abs_sqr_rounded exact) 0 (Fin 0) (Fin (1 / 2)) near_normalized_qubit =
       Inl (RuntimeError ''Error: Probabilities after applying Kraus operators do not sum up to 1.'')"
proof -
  have u: "[0..<2] = [0, 1]" by (simp add: upt_conv_Cons)
  have b: "\<not> qubit_is_one 0 0" "qubit_is_one 1 0" "qubit_is_one (Suc 0) 0"
    by (simp_all add: qubit_is_one_def)
  show ?thesis
    by (simp add: damping_def near_normalized_qubit_def pow2_def u b damping_prob_step_def
          abs_sqr_rounded_def cmul_def exact_def fsub_def fgt_def)
qed


subsection \<open>The probabilities in exact arithmetic\<close>

text \<open>
  With the rounding that changes nothing, on finite amplitudes, the decay probability
  is \<open>p\<close> times the mass of the indices with bit \<open>qn\<close> set, the no-decay probability is
  the mass of the others plus \<open>1 - p\<close> times that mass, and the two add up to the squared
  norm of the state.
\<close>

lemma sum_list_filter_upt:
  "(\<Sum>i\<leftarrow>filter P [0..<N]. f i) = sum f {i. i < N \<and> P i}"
  for f :: "nat \<Rightarrow> real"
proof -
  have "distinct (filter P [0..<N])" by simp
  then have "(\<Sum>i\<leftarrow>filter P [0..<N]. f i) = sum f (set (filter P [0..<N]))"
    by (rule sum_list_distinct_conv_sum_set)
  also have "set (filter P [0..<N]) = {i. i < N \<and> P i}" by auto
  finally show ?thesis .
qed

lemma sum_partner:
  fixes f :: "nat \<Rightarrow> real"
  assumes "qn < n"
  shows "(\<Sum>i\<leftarrow>filter (\<lambda>i. qubit_is_one i qn) [0..<pow2 n]. f (i - pow2 qn)) =
         (\<Sum>j\<leftarrow>filter (\<lambda>j. \<not> qubit_is_one j qn) [0..<pow2 n]. f j)"
  unfolding sum_list_filter_upt
proof (rule sum.reindex_bij_witness[where i = "\<lambda>j. j + pow2 qn" and j = "\<lambda>i. i - pow2 qn"])
  fix i assume "i \<in> {i. i < pow2 n \<and> qubit_is_one i qn}"
  then have i: "i < pow2 n" "qubit_is_one i qn" by simp_all
  from qubit_is_one_ge[OF i(2)] show "i - pow2 qn + pow2 qn = i" by simp
  from i qubit_is_one_diff[OF i(2)]
  show "i - pow2 qn \<in> {j. j < pow2 n \<and> \<not> qubit_is_one j qn}" by simp
  show "f (i - pow2 qn) = f (i - pow2 qn)" ..
next
  fix j assume "j \<in> {j. j < pow2 n \<and> \<not> qubit_is_one j qn}"
  then have j: "j < pow2 n" "\<not> qubit_is_one j qn" by simp_all
  show "j + pow2 qn - pow2 qn = j" by simp
  from partner_in_range[OF j(2) j(1) assms] j(2)
  show "j + pow2 qn \<in> {i. i < pow2 n \<and> qubit_is_one i qn}"
    by (simp add: qubit_is_one_add)
qed

lemma sum_list_split:
  "(\<Sum>i\<leftarrow>filter P xs. f i) + (\<Sum>i\<leftarrow>filter (\<lambda>i. \<not> P i) xs. f i) = (\<Sum>i\<leftarrow>xs. f i)"
  for f :: "nat \<Rightarrow> real"
  by (induction xs) simp_all


lemma scaled_squares:
  fixes x y c :: real
  assumes "0 \<le> c"
  shows "x * sqrt c * (x * sqrt c) + y * sqrt c * (y * sqrt c) = c * (x * x + y * y)"
proof -
  have g: "x * d * (x * d) + y * d * (y * d) = (d * d) * (x * x + y * y)" for d :: real
    by (simp add: algebra_simps)
  have "sqrt c * sqrt c = c" using assms by simp
  with g[of "sqrt c"] show ?thesis by (simp only:)
qed

lemma fold_fadd_exact:
  "fold (\<lambda>x acc. fadd exact acc x) (map (\<lambda>i. Fin (g i)) xs) (Fin a) = Fin (a + (\<Sum>i\<leftarrow>xs. g i))"
  by (induction xs arbitrary: a) (simp_all add: exact_def add.assoc)

lemma fsum_exact: "fsum exact (map (\<lambda>i. Fin (g i)) xs) = Fin (\<Sum>i\<leftarrow>xs. g i)"
  by (simp add: fsum_def fold_fadd_exact)

lemma decay_probability_exact:
  assumes amp: "\<And>i. i < pow2 (total_qubit s) \<Longrightarrow> state s ! i = (Fin (re i), Fin (im i))"
    and p: "0 \<le> p"
  shows "decay_probability exact (abs_sqr_rounded exact) s qn (Fin p) =
         Fin (p * (\<Sum>i\<leftarrow>filter (\<lambda>i. qubit_is_one i qn) [0..<pow2 (total_qubit s)].
                     re i * re i + im i * im i))"
proof -
  let ?xs = "filter (\<lambda>i. qubit_is_one i qn) [0..<pow2 (total_qubit s)]"
  have t: "re i * sqrt p * (re i * sqrt p) + im i * sqrt p * (im i * sqrt p)
      = p * (re i * re i + im i * im i)" for i
    using p by (rule scaled_squares)
  have m: "map (\<lambda>i. abs_sqr_rounded exact (cmul exact (state s ! i) (fsqrt exact (Fin p)))) ?xs
      = map (\<lambda>i. Fin (p * (re i * re i + im i * im i))) ?xs"
  proof (rule map_cong)
    fix i assume "i \<in> set ?xs"
    then have i: "i < pow2 (total_qubit s)" by simp
    show "abs_sqr_rounded exact (cmul exact (state s ! i) (fsqrt exact (Fin p)))
        = Fin (p * (re i * re i + im i * im i))"
      using p t[of i] by (simp add: amp[OF i] abs_sqr_rounded_def cmul_def exact_def)
  qed simp
  show ?thesis
    unfolding decay_probability_def m fsum_exact by (simp add: sum_list_const_mult)
qed

lemma no_decay_probability_exact:
  assumes amp: "\<And>i. i < pow2 (total_qubit s) \<Longrightarrow> state s ! i = (Fin (re i), Fin (im i))"
    and q: "qn < total_qubit s" and p: "p \<le> 1"
  shows "no_decay_probability exact (abs_sqr_rounded exact) s qn (Fin p) =
         Fin ((\<Sum>i\<leftarrow>filter (\<lambda>i. \<not> qubit_is_one i qn) [0..<pow2 (total_qubit s)].
                 re i * re i + im i * im i)
              + (1 - p) * (\<Sum>i\<leftarrow>filter (\<lambda>i. qubit_is_one i qn) [0..<pow2 (total_qubit s)].
                     re i * re i + im i * im i))"
proof -
  let ?N = "pow2 (total_qubit s)"
  let ?xs = "filter (\<lambda>i. qubit_is_one i qn) [0..<?N]"
  let ?m = "\<lambda>i. re i * re i + im i * im i"
  have np: "0 \<le> 1 - p" using p by simp
  have t: "re i * sqrt c * (re i * sqrt c) + im i * sqrt c * (im i * sqrt c)
      = c * ?m i" if "0 \<le> c" for i c
    using that by (rule scaled_squares)
  have m: "map (\<lambda>i. fadd exact
               (abs_sqr_rounded exact (cmul exact (state s ! i) (fsqrt exact (fsub exact (Fin 1) (Fin p)))))
               (abs_sqr_rounded exact (state s ! (i - pow2 qn)))) ?xs
      = map (\<lambda>i. Fin ((1 - p) * ?m i + ?m (i - pow2 qn))) ?xs"
  proof (rule map_cong)
    fix i assume "i \<in> set ?xs"
    then have i: "i < ?N" by simp
    then have j: "i - pow2 qn < ?N" by simp
    show "fadd exact
            (abs_sqr_rounded exact (cmul exact (state s ! i) (fsqrt exact (fsub exact (Fin 1) (Fin p)))))
            (abs_sqr_rounded exact (state s ! (i - pow2 qn)))
          = Fin ((1 - p) * ?m i + ?m (i - pow2 qn))"
      using p t[OF np, of i]
      by (simp add: amp[OF i] amp[OF j] abs_sqr_rounded_def cmul_def exact_def fsub_def)
  qed simp
  have "no_decay_probability exact (abs_sqr_rounded exact) s qn (Fin p)
      = Fin (\<Sum>i\<leftarrow>?xs. (1 - p) * ?m i + ?m (i - pow2 qn))"
    unfolding no_decay_probability_def m by (rule fsum_exact)
  also have "(\<Sum>i\<leftarrow>?xs. (1 - p) * ?m i + ?m (i - pow2 qn))
      = (1 - p) * (\<Sum>i\<leftarrow>?xs. ?m i) + (\<Sum>i\<leftarrow>?xs. ?m (i - pow2 qn))"
    by (simp add: sum_list_addf sum_list_const_mult)
  also have "(\<Sum>i\<leftarrow>?xs. ?m (i - pow2 qn))
      = (\<Sum>j\<leftarrow>filter (\<lambda>j. \<not> qubit_is_one j qn) [0..<?N]. ?m j)"
    by (rule sum_partner[OF q])
  finally show ?thesis by (simp add: add.commute)
qed

lemma probabilities_exact_add_up:
  assumes amp: "\<And>i. i < pow2 (total_qubit s) \<Longrightarrow> state s ! i = (Fin (re i), Fin (im i))"
    and q: "qn < total_qubit s" and p: "0 \<le> p" "p \<le> 1"
  shows "fadd exact (no_decay_probability exact (abs_sqr_rounded exact) s qn (Fin p))
                    (decay_probability exact (abs_sqr_rounded exact) s qn (Fin p)) =
         Fin (\<Sum>i\<leftarrow>[0..<pow2 (total_qubit s)]. re i * re i + im i * im i)"
proof -
  let ?N = "pow2 (total_qubit s)"
  let ?m = "\<lambda>i. re i * re i + im i * im i"
  let ?S1 = "\<Sum>i\<leftarrow>filter (\<lambda>i. qubit_is_one i qn) [0..<?N]. ?m i"
  let ?S0 = "\<Sum>i\<leftarrow>filter (\<lambda>i. \<not> qubit_is_one i qn) [0..<?N]. ?m i"
  have "?S0 + (1 - p) * ?S1 + p * ?S1 = ?S1 + ?S0" by (simp add: algebra_simps)
  also have "\<dots> = (\<Sum>i\<leftarrow>[0..<?N]. ?m i)"
    by (rule sum_list_split)
  finally have e: "?S0 + (1 - p) * ?S1 + p * ?S1 = (\<Sum>i\<leftarrow>[0..<?N]. ?m i)" .
  have d: "decay_probability exact (abs_sqr_rounded exact) s qn (Fin p) = Fin (p * ?S1)"
    by (rule decay_probability_exact) (simp_all add: amp p)
  have n: "no_decay_probability exact (abs_sqr_rounded exact) s qn (Fin p)
      = Fin (?S0 + (1 - p) * ?S1)"
    by (rule no_decay_probability_exact) (simp_all add: amp q p)
  show ?thesis unfolding d n using e by (simp add: exact_def)
qed

end
